theory Spec2Isabelle
  imports Main "HOL-Library.Char_ord" "HOL-Library.List_Lexorder"
begin

section \<open>Strings\<close>

text \<open>
  Go strings are byte sequences; they are modelled as \<^typ>\<open>string\<close> (a list of 8-bit
  characters), so \<open>length\<close> is Go's \<open>len\<close> and \<open>take\<close>/\<open>drop\<close> are Go's slicing.
  Go's \<open>int\<close> is modelled as \<^typ>\<open>int\<close>: every integer of the program is a list
  index, a list length or a terminal dimension, far from the 64-bit bounds.
\<close>

text \<open>\<open>strings.HasPrefix(s, p)\<close>.\<close>

definition HasPrefix :: "string \<Rightarrow> string \<Rightarrow> bool" where
  "HasPrefix s p = (take (length p) s = p)"

text \<open>
  The first occurrence of \<open>sep\<close> in \<open>s\<close> (\<open>strings.Index\<close>): the text before it and
  the text after it, or \<open>None\<close> when \<open>sep\<close> does not occur.
\<close>

fun splitFirst :: "string \<Rightarrow> string \<Rightarrow> (string \<times> string) option" where
  "splitFirst [] sep = (if sep = [] then Some ([], []) else None)"
| "splitFirst (c # s) sep =
     (if HasPrefix (c # s) sep then Some ([], drop (length sep) (c # s))
      else (case splitFirst s sep of
              None \<Rightarrow> None
            | Some (b, a) \<Rightarrow> Some (c # b, a)))"

text \<open>\<open>strings.Contains(s, sub)\<close>.\<close>

definition Contains :: "string \<Rightarrow> string \<Rightarrow> bool" where
  "Contains s sub = (splitFirst s sub \<noteq> None)"

text \<open>\<open>strings.Split(s, "\n")\<close>: one more piece than there are newlines.\<close>

fun SplitLines :: "string \<Rightarrow> string list" where
  "SplitLines [] = [[]]"
| "SplitLines (c # s) =
     (if c = CHR 0x0A then [] # SplitLines s
      else (case SplitLines s of
              [] \<Rightarrow> [[c]]
            | l # ls \<Rightarrow> (c # l) # ls))"

subsection \<open>\<open>strings.TrimSpace\<close>\<close>

text \<open>
  \<open>strings.TrimSpace\<close> removes the leading and then the trailing white space runes, as
  \<open>unicode.IsSpace\<close> defines them: the six ASCII ones, and U+0085, U+00A0, U+1680,
  U+2000 to U+200A, U+2028, U+2029, U+202F, U+205F, U+3000, each recognised by its
  UTF-8 encoding (an invalid or overlong encoding decodes to U+FFFD, which is no space).
\<close>

definition asciiSpace :: "char \<Rightarrow> bool" where
  "asciiSpace c = (c \<in> set [CHR 0x09, CHR 0x0A, CHR 0x0B, CHR 0x0C, CHR 0x0D, CHR 0x20])"

definition unicodeSpaces :: "string list" where
  "unicodeSpaces =
    [[CHR 0xC2, CHR 0x85], [CHR 0xC2, CHR 0xA0], [CHR 0xE1, CHR 0x9A, CHR 0x80],
     [CHR 0xE2, CHR 0x80, CHR 0x80], [CHR 0xE2, CHR 0x80, CHR 0x81],
     [CHR 0xE2, CHR 0x80, CHR 0x82], [CHR 0xE2, CHR 0x80, CHR 0x83],
     [CHR 0xE2, CHR 0x80, CHR 0x84], [CHR 0xE2, CHR 0x80, CHR 0x85],
     [CHR 0xE2, CHR 0x80, CHR 0x86], [CHR 0xE2, CHR 0x80, CHR 0x87],
     [CHR 0xE2, CHR 0x80, CHR 0x88], [CHR 0xE2, CHR 0x80, CHR 0x89],
     [CHR 0xE2, CHR 0x80, CHR 0x8A], [CHR 0xE2, CHR 0x80, CHR 0xA8],
     [CHR 0xE2, CHR 0x80, CHR 0xA9], [CHR 0xE2, CHR 0x80, CHR 0xAF],
     [CHR 0xE2, CHR 0x81, CHR 0x9F], [CHR 0xE3, CHR 0x80, CHR 0x80]]"

text \<open>
  The number of bytes of the white space rune at the head of \<open>s\<close>, 0 when \<open>s\<close> does not
  start with one; \<open>tbl\<close> holds the multi-byte encodings.
\<close>

definition spaceLen :: "string list \<Rightarrow> string \<Rightarrow> nat" where
  "spaceLen tbl s =
     (case s of
        [] \<Rightarrow> 0
      | c # _ \<Rightarrow>
          if asciiSpace c then 1
          else (case find (\<lambda>u. u \<noteq> [] \<and> HasPrefix s u) tbl of
                  None \<Rightarrow> 0
                | Some u \<Rightarrow> length u))"

lemma HasPrefix_length: "HasPrefix s p \<Longrightarrow> length p \<le> length s"
proof -
  assume "HasPrefix s p"
  then have "length (take (length p) s) = length p" by (simp add: HasPrefix_def)
  then show ?thesis by simp
qed

lemma spaceLen_le: "spaceLen tbl s \<le> length s"
proof (cases s)
  case Nil
  then show ?thesis by (simp add: spaceLen_def)
next
  case (Cons c r)
  show ?thesis
  proof (cases "find (\<lambda>u. u \<noteq> [] \<and> HasPrefix s u) tbl")
    case None
    with Cons show ?thesis by (simp add: spaceLen_def)
  next
    case (Some u)
    then have "HasPrefix s u" by (auto simp: find_Some_iff)
    then have "length u \<le> length s" by (rule HasPrefix_length)
    with Cons Some show ?thesis by (simp add: spaceLen_def)
  qed
qed

function trimLeftWith :: "string list \<Rightarrow> string \<Rightarrow> string" where
  "trimLeftWith tbl s =
     (if spaceLen tbl s = 0 then s else trimLeftWith tbl (drop (spaceLen tbl s) s))"
  by pat_completeness auto
termination
proof (relation "measure (\<lambda>(tbl, s). length s)")
  show "wf (measure (\<lambda>(tbl, s). length s))" by simp
next
  fix tbl :: "string list" and s :: string
  assume "spaceLen tbl s \<noteq> 0"
  moreover have "spaceLen tbl s \<le> length s" by (rule spaceLen_le)
  ultimately show "((tbl, drop (spaceLen tbl s) s), (tbl, s)) \<in> measure (\<lambda>(tbl, s). length s)"
    by simp
qed

declare trimLeftWith.simps [simp del]

definition TrimLeftSpace :: "string \<Rightarrow> string" where
  "TrimLeftSpace s = trimLeftWith unicodeSpaces s"

definition TrimRightSpace :: "string \<Rightarrow> string" where
  "TrimRightSpace s = rev (trimLeftWith (map rev unicodeSpaces) (rev s))"

definition TrimSpace :: "string \<Rightarrow> string" where
  "TrimSpace s = TrimRightSpace (TrimLeftSpace s)"

text \<open>A string starts (ends) with a white space rune.\<close>

definition leadingSpace :: "string \<Rightarrow> bool" where
  "leadingSpace s = (spaceLen unicodeSpaces s \<noteq> 0)"

definition trailingSpace :: "string \<Rightarrow> bool" where
  "trailingSpace s = (spaceLen (map rev unicodeSpaces) (rev s) \<noteq> 0)"

text \<open>
  A white space rune in its encoding, and a text that consists of white space runes
  only.
\<close>

definition spaceRune :: "string \<Rightarrow> bool" where
  "spaceRune u = ((\<exists>c. u = [c] \<and> asciiSpace c) \<or> u \<in> set unicodeSpaces)"

definition whiteSpace :: "string \<Rightarrow> bool" where
  "whiteSpace s = (\<exists>us. s = concat us \<and> list_all spaceRune us)"

section \<open>Command extraction\<close>

text \<open>
  \<open>regexp.MustCompile(`(?s)<command>(.*?)</command>`).FindAllStringSubmatch(s, -1)\<close>,
  by the leftmost-first semantics of Go's \<open>regexp\<close>: a match starts at the first
  \<open><command>\<close> that a \<open></command>\<close> follows, the non-greedy group ends at the first
  \<open></command>\<close> after it, and the search goes on behind the match. Each match is the
  pair of the whole match and of submatch 1 (Go's two-element slice).
\<close>

definition openTag :: string where
  "openTag = ''<command>''"

definition closeTag :: string where
  "closeTag = ''</command>''"

lemma splitFirst_length:
  "splitFirst s sep = Some (b, a) \<Longrightarrow> length s = length b + length sep + length a"
proof (induction s arbitrary: b)
  case Nil
  then show ?case by (simp split: if_splits)
next
  case (Cons c s)
  show ?case
  proof (cases "HasPrefix (c # s) sep")
    case True
    then have "length sep \<le> length (c # s)" by (rule HasPrefix_length)
    moreover from True Cons.prems have "b = []" and "a = drop (length sep) (c # s)"
      by simp_all
    ultimately show ?thesis by simp
  next
    case False
    with Cons.prems obtain b' where "splitFirst s sep = Some (b', a)" and "b = c # b'"
      by (auto split: option.splits)
    with Cons.IH show ?thesis by simp
  qed
qed

function FindAllStringSubmatch :: "string \<Rightarrow> (string \<times> string) list" where
  "FindAllStringSubmatch s =
     (case splitFirst s openTag of
        None \<Rightarrow> []
      | Some (pre, r) \<Rightarrow>
          (case splitFirst r closeTag of
             None \<Rightarrow> []
           | Some (inner, r') \<Rightarrow>
               (openTag @ inner @ closeTag, inner) # FindAllStringSubmatch r'))"
  by pat_completeness auto
termination
proof (relation "measure length")
  show "wf (measure length)" by simp
next
  fix s x2 pre r x2a inner r'
  assume "splitFirst s openTag = Some x2" "(pre, r) = x2"
    "splitFirst r closeTag = Some x2a" "(inner, r') = x2a"
  then have "length s = length pre + length openTag + length r"
    and "length r = length inner + length closeTag + length r'"
    by (auto dest: splitFirst_length)
  then show "(r', s) \<in> measure length" by (simp add: openTag_def)
qed

declare FindAllStringSubmatch.simps [simp del]

text \<open>
  The clean-up loop of \<open>handleCommandExecution\<close>:
  \<open>matches[i][1] = strings.TrimSpace(matches[i][1])\<close> for every match.
\<close>

definition trimMatches :: "(string \<times> string) list \<Rightarrow> (string \<times> string) list" where
  "trimMatches ms = map (\<lambda>(whole, sub). (whole, TrimSpace sub)) ms"

text \<open>The commands extracted from a text: submatch 1 of every trimmed match.\<close>

definition extractCommands :: "string \<Rightarrow> string list" where
  "extractCommands t = map snd (trimMatches (FindAllStringSubmatch t))"

text \<open>
  What "in document order, one per non-overlapping pair" means: the text is a sequence of
  segments, each some text \<open>fst seg\<close>, an opening tag, the inner text \<open>snd seg\<close> and a
  closing tag, followed by a rest. In every segment the opening tag is the first one
  of the segment and the closing tag is the first one behind it (\<open>nearest\<close>), and the
  rest holds no further pair (\<open>noPair\<close>).
\<close>

definition wrapped :: "string \<times> string \<Rightarrow> string" where
  "wrapped seg = fst seg @ openTag @ snd seg @ closeTag"

definition nearest :: "string \<times> string \<Rightarrow> bool" where
  "nearest seg =
     ((\<forall>x y. fst seg @ openTag = x @ openTag @ y \<longrightarrow> x = fst seg) \<and>
      (\<forall>x y. snd seg @ closeTag = x @ closeTag @ y \<longrightarrow> x = snd seg))"

definition noPair :: "string \<Rightarrow> bool" where
  "noPair r = (\<not> (\<exists>a b c. r = a @ openTag @ b @ closeTag @ c))"

section \<open>More of Go's library, as the program uses it\<close>

text \<open>
  Go's integer division truncates towards zero (\<open>m.viewport.Height / 4\<close> with a
  negative height), where \<open>div\<close> rounds down.
\<close>

definition goDiv :: "int \<Rightarrow> int \<Rightarrow> int" where
  "goDiv a b = sgn a * sgn b * (\<bar>a\<bar> div \<bar>b\<bar>)"

text \<open>\<open>strconv.Itoa\<close> and the \<open>%d\<close> of \<open>fmt.Sprintf\<close>.\<close>

function natDigits :: "nat \<Rightarrow> string" where
  "natDigits n =
     (if n < 10 then [char_of (48 + n)]
      else natDigits (n div 10) @ [char_of (48 + n mod 10)])"
  by pat_completeness auto
termination
  by (relation "measure id") auto

declare natDigits.simps [simp del]

definition Itoa :: "int \<Rightarrow> string" where
  "Itoa i = (if i < 0 then CHR ''-'' # natDigits (nat (- i)) else natDigits (nat i))"

text \<open>
  \<open>strconv.Atoi\<close>: an optional sign and decimal digits, within the 64-bit range;
  \<open>None\<close> is the error.
\<close>

fun parseDigits :: "string \<Rightarrow> nat \<Rightarrow> nat option" where
  "parseDigits [] n = Some n"
| "parseDigits (c # s) n =
     (if 48 \<le> (of_char c :: nat) \<and> (of_char c :: nat) \<le> 57
      then parseDigits s (n * 10 + ((of_char c :: nat) - 48))
      else None)"

definition Atoi :: "string \<Rightarrow> int option" where
  "Atoi s =
     (let neg = (s \<noteq> [] \<and> hd s = CHR ''-'');
          ds = (if s \<noteq> [] \<and> (hd s = CHR ''-'' \<or> hd s = CHR ''+'') then tl s else s)
      in if ds = [] then None
         else (case parseDigits ds 0 of
                 None \<Rightarrow> None
               | Some n \<Rightarrow>
                   (let v = (if neg then - int n else int n)
                    in if - (2 ^ 63) \<le> v \<and> v < 2 ^ 63 then Some v else None)))"

text \<open>
  \<open>filepath.Ext\<close>: the suffix from the last dot of the last path element, found by
  scanning from the end up to a path separator; empty when there is no dot.
\<close>

fun extScan :: "string \<Rightarrow> string \<Rightarrow> string" where
  "extScan [] acc = []"
| "extScan (c # r) acc =
     (if c = CHR ''/'' then []
      else if c = CHR ''.'' then c # acc
      else extScan r (c # acc))"

definition Ext :: "string \<Rightarrow> string" where
  "Ext path = extScan (rev path) []"

section \<open>Data model\<close>

text \<open>
  \<open>time.Time\<close> is a point on a linear time axis: the program only stores, compares
  and formats it.
\<close>

type_synonym time = int

record Message =
  Role :: string
  Content :: string
  Timestamp :: time

record Conversation =
  ID :: string
  Messages :: "Message list"
  CreatedAt :: time
  Summary :: string

text \<open>\<open>claude.Message\<close>, the message of a completion request.\<close>

record ClaudeMessage =
  cRole :: string
  cContent :: string

datatype Mode = ModeNormal | ModeEditing | ModeHistory | ModeCommandSelect | ModeHelp

text \<open>
  The fields of \<open>viewport.Model\<close> that the program reads and writes, and its line
  buffer.
\<close>

record Viewport =
  YOffset :: int
  Height :: int
  Width :: int
  lines :: "string list"

text \<open>\<open>textinput.Model\<close>: its value and its width.\<close>

record TextInput =
  tiValue :: string
  tiWidth :: int

text \<open>
  The \<open>model\<close> of the program. \<open>err\<close> is \<open>None\<close> for Go's \<open>nil\<close>. A match of
  \<open>commands\<close> is the pair of the whole match and of submatch 1. The spinner has no
  state that the program reads; \<open>storage\<close> and \<open>client\<close> are handles to the world
  below. \<open>m.conversation\<close> points to a conversation that only the model refers to,
  so it is held by value. The entries of \<open>conversations\<close> are held by value too: the
  backing arrays that a selected conversation shares with its entry in that list are
  not modelled, and nothing below reads a message of that list.
\<close>

record model =
  textInput :: TextInput
  viewport :: Viewport
  err :: "string option"
  conversation :: Conversation
  mode :: Mode
  messages :: "Message list"
  cursorIndex :: int
  conversations :: "Conversation list"
  selectedConv :: int
  isLoading :: bool
  height :: int
  width :: int
  commands :: "(string \<times> string) list"
  selectedCommand :: int
  ready :: bool
  lastLoadedConv :: int

subsection \<open>Events and commands\<close>

datatype KeyType =
    KeyRunes | KeyEnter | KeyEsc | KeyUp | KeyDown | KeyPgUp | KeyPgDown | KeyHome | KeyEnd
  | KeyCtrlC | KeyCtrlX | KeyCtrlJ | KeyCtrlK | KeyCtrlL | KeyCtrlN | KeyCtrlH | KeyCtrlR
  | KeyBackspace | KeyTab | KeySpace | KeyLeft | KeyRight | KeyDelete

text \<open>\<open>tea.Key\<close>, the content of a \<open>tea.KeyMsg\<close>.\<close>

record Key =
  Type :: KeyType
  Runes :: string
  Alt :: bool

text \<open>The names that Bubble Tea gives the keys.\<close>

fun keyNames :: "KeyType \<Rightarrow> string" where
  "keyNames KeyRunes = ''runes''"
| "keyNames KeyEnter = ''enter''"
| "keyNames KeyEsc = ''esc''"
| "keyNames KeyUp = ''up''"
| "keyNames KeyDown = ''down''"
| "keyNames KeyPgUp = ''pgup''"
| "keyNames KeyPgDown = ''pgdown''"
| "keyNames KeyHome = ''home''"
| "keyNames KeyEnd = ''end''"
| "keyNames KeyCtrlC = ''ctrl+c''"
| "keyNames KeyCtrlX = ''ctrl+x''"
| "keyNames KeyCtrlJ = ''ctrl+j''"
| "keyNames KeyCtrlK = ''ctrl+k''"
| "keyNames KeyCtrlL = ''ctrl+l''"
| "keyNames KeyCtrlN = ''ctrl+n''"
| "keyNames KeyCtrlH = ''ctrl+h''"
| "keyNames KeyCtrlR = ''ctrl+r''"
| "keyNames KeyBackspace = ''backspace''"
| "keyNames KeyTab = ''tab''"
| "keyNames KeySpace = '' ''"
| "keyNames KeyLeft = ''left''"
| "keyNames KeyRight = ''right''"
| "keyNames KeyDelete = ''delete''"

text \<open>\<open>msg.String()\<close> of a key message: the runes or the key's name, after \<open>alt+\<close>.\<close>

definition keyString :: "Key \<Rightarrow> string" where
  "keyString k =
     (if Alt k then ''alt+'' else []) @ (if Type k = KeyRunes then Runes k else keyNames (Type k))"

datatype MouseEventType = MouseWheelUp | MouseWheelDown | MouseOther

text \<open>
  The messages that \<open>Update\<close> receives. An error is \<open>None\<close> for \<open>nil\<close>. \<open>otherMsg\<close>
  stands for the messages of the libraries (a spinner tick, a cursor blink).
\<close>

datatype Msg =
    WindowSizeMsg int int
  | MouseMsg MouseEventType
  | KeyMsg Key
  | apiResponseMsg string "string option"
  | editMessageMsg int string "string option"
  | commandOutputMsg string "string option"
  | scrollMsg int
  | otherMsg

text \<open>
  The \<open>tea.Cmd\<close> that \<open>Update\<close> returns: \<open>nil\<close>, \<open>tea.Quit\<close>, the batch of the
  commands of the spinner and of the text input, the closure that calls
  \<open>client.CreateMessage\<close> (a completion request), \<open>editMessageCmd\<close>,
  \<open>executeCommand\<close>, and the clipboard process with its standard input.
\<close>

datatype Cmd =
    CmdNil
  | CmdQuit
  | CmdBatch
  | CmdCreateMessage "ClaudeMessage list"
  | CmdEditMessage string int
  | CmdExecuteCommand string
  | CmdClipboard "string list" string

text \<open>A run-time panic of Go ends the program.\<close>

datatype panic = IndexOutOfRange

text \<open>\<open>xs[i]\<close> of Go.\<close>

definition index :: "'a list \<Rightarrow> int \<Rightarrow> panic + 'a" where
  "index xs i = (if 0 \<le> i \<and> i < int (length xs) then Inr (xs ! nat i) else Inl IndexOutOfRange)"

subsection \<open>The world outside the program\<close>

text \<open>
  The storage directory: whether \<open>os.ReadDir\<close> fails, the entries in the order
  \<open>os.ReadDir\<close> returns them (sorted by name) with their contents (\<open>None\<close> when
  \<open>os.ReadFile\<close> fails), and whether \<open>os.WriteFile\<close> fails.
\<close>

record Disk =
  dirErr :: "string option"
  files :: "(string \<times> string option) list"
  writeErr :: "string option"

record World =
  disk :: Disk
  now :: time
  uuid :: string
  GOOS :: string

datatype Style =
    botStyle | selectedStyle | systemStyle | commandStyle | scrollIndicatorStyle
  | userLabelStyle | assistantLabelStyle | messageStyle | codeBlockStyle
  | selectedLabelStyle | instructionBarStyle | selectedMessageStyle

text \<open>
  The functions of the libraries, as parameters: \<open>json.Unmarshal\<close> into a
  \<open>Conversation\<close> (\<open>None\<close> is its error), \<open>json.MarshalIndent\<close>, \<open>Time.Format\<close> with
  its layout, the \<open>Render\<close> of a lipgloss style, and what \<open>textinput.Update\<close> does to
  the value of the text input.
\<close>

record Env =
  Unmarshal :: "string \<Rightarrow> Conversation option"
  MarshalIndent :: "Conversation \<Rightarrow> string + string"
  FormatTime :: "string \<Rightarrow> time \<Rightarrow> string"
  Render :: "Style \<Rightarrow> string \<Rightarrow> string"
  tiUpdate :: "Key \<Rightarrow> string \<Rightarrow> string"

section \<open>Storage\<close>

text \<open>
  \<open>ListConversations\<close>: the loop over the entries of the directory appends every
  conversation that could be read and parsed.
\<close>

fun listLoop :: "Env \<Rightarrow> Conversation list \<Rightarrow> (string \<times> string option) list \<Rightarrow> Conversation list" where
  "listLoop env acc [] = acc"
| "listLoop env acc ((name, content) # fs) =
     (if Ext name = ''.convo'' then
        (case content of
           None \<Rightarrow> listLoop env acc fs
         | Some bytes \<Rightarrow>
             (case Unmarshal env bytes of
                None \<Rightarrow> listLoop env acc fs
              | Some conv \<Rightarrow> listLoop env (acc @ [conv]) fs))
      else listLoop env acc fs)"

definition ListConversations :: "Env \<Rightarrow> Disk \<Rightarrow> string + Conversation list" where
  "ListConversations env d =
     (case dirErr d of
        Some e \<Rightarrow> Inl (''error reading directory: '' @ e)
      | None \<Rightarrow> Inr (listLoop env [] (files d)))"

text \<open>
  What the listing is meant to return: of every entry in turn, the conversation it
  holds, when its name has the conversation extension, it can be read and it parses.
\<close>

definition storedConversation :: "Env \<Rightarrow> string \<times> string option \<Rightarrow> Conversation option" where
  "storedConversation env f =
     (if Ext (fst f) = ''.convo'' then Option.bind (snd f) (Unmarshal env) else None)"

text \<open>
  \<open>os.WriteFile\<close> in the storage directory: the entry of that name is replaced, or a
  new entry is put at its place in the order of the names.
\<close>

fun putFile :: "string \<Rightarrow> string \<Rightarrow> (string \<times> string option) list \<Rightarrow> (string \<times> string option) list" where
  "putFile name bytes [] = [(name, Some bytes)]"
| "putFile name bytes ((n, c) # fs) =
     (if name = n then (name, Some bytes) # fs
      else if name < n then (name, Some bytes) # (n, c) # fs
      else (n, c) # putFile name bytes fs)"

text \<open>
  \<open>SaveConversation\<close>: the returned error (\<open>None\<close> for \<open>nil\<close>) and the directory
  afterwards. A failed write leaves the directory as it was.
\<close>

definition conversationFile :: "Env \<Rightarrow> Conversation \<Rightarrow> string" where
  "conversationFile env conv =
     FormatTime env ''2006-01-02T15-04-05'' (CreatedAt conv) @ ''_'' @ ID conv @ ''.convo''"

definition SaveConversation :: "Env \<Rightarrow> Disk \<Rightarrow> Conversation \<Rightarrow> string option \<times> Disk" where
  "SaveConversation env d conv =
     (let filename = conversationFile env conv
      in case MarshalIndent env conv of
           Inl e \<Rightarrow> (Some (''error marshaling conversation: '' @ e), d)
         | Inr bytes \<Rightarrow>
             (case writeErr d of
                Some e \<Rightarrow> (Some (''error writing conversation file: '' @ e), d)
              | None \<Rightarrow> (None, d\<lparr>files := putFile filename bytes (files d)\<rparr>)))"

section \<open>The viewport\<close>

text \<open>
  The methods of \<open>viewport.Model\<close> belong to the Bubbles library, which is not part of
  the sources. They are modelled after the Scroll/Viewport Manager of the
  specification, with its edge case: at a viewport height of 0 all scroll operations
  are no-ops.
\<close>

text \<open>Modelled from the spec: the total line count is the length of the line buffer.\<close>

definition TotalLineCount :: "Viewport \<Rightarrow> int" where
  "TotalLineCount vp = int (length (lines vp))"

text \<open>
  Modelled from the spec: the largest valid offset, \<open>max(0, totalLines -
  viewportHeight)\<close>, which the library computes in a method that is missing here.
\<close>

definition maxYOffset :: "Viewport \<Rightarrow> int" where
  "maxYOffset vp = max 0 (TotalLineCount vp - Height vp)"

text \<open>
  Modelled from the spec: \<open>setContent\<close> (the missing \<open>SetContent\<close>) replaces the rendered
  line buffer; the total line count becomes the number of lines.
\<close>

definition SetContent :: "string \<Rightarrow> Viewport \<Rightarrow> Viewport" where
  "SetContent s vp = vp\<lparr>lines := SplitLines s\<rparr>"

text \<open>
  Modelled from the spec: \<open>scrollBy(delta)\<close> clamps the resulting offset to
  \<open>[0, max(0, totalLines - viewportHeight)]\<close>, and is a no-op at a viewport height of
  0; the missing \<open>LineUp\<close>, \<open>LineDown\<close>, \<open>HalfViewUp\<close> and \<open>HalfViewDown\<close> are instances
  of it.
\<close>

definition scrollBy :: "int \<Rightarrow> Viewport \<Rightarrow> Viewport" where
  "scrollBy delta vp =
     (if Height vp = 0 then vp
      else vp\<lparr>YOffset := max 0 (min (maxYOffset vp) (YOffset vp + delta))\<rparr>)"

text \<open>
  Modelled from the spec: \<open>gotoTop\<close> (the missing \<open>GotoTop\<close>) sets the offset to 0, and
  is a no-op at a viewport height of 0.
\<close>

definition GotoTop :: "Viewport \<Rightarrow> Viewport" where
  "GotoTop vp = (if Height vp = 0 then vp else vp\<lparr>YOffset := 0\<rparr>)"

text \<open>
  Modelled from the spec: \<open>gotoBottom\<close> (the missing \<open>GotoBottom\<close>) sets the offset to
  \<open>max(0, totalLines - viewportHeight)\<close>, and is a no-op at a viewport height of 0.
\<close>

definition GotoBottom :: "Viewport \<Rightarrow> Viewport" where
  "GotoBottom vp = (if Height vp = 0 then vp else vp\<lparr>YOffset := maxYOffset vp\<rparr>)"

text \<open>Modelled from the spec: the missing \<open>LineUp(n)\<close> is \<open>scrollBy(-n)\<close>.\<close>

definition LineUp :: "int \<Rightarrow> Viewport \<Rightarrow> Viewport" where
  "LineUp n vp = scrollBy (- n) vp"

text \<open>Modelled from the spec: the missing \<open>LineDown(n)\<close> is \<open>scrollBy(n)\<close>.\<close>

definition LineDown :: "int \<Rightarrow> Viewport \<Rightarrow> Viewport" where
  "LineDown n vp = scrollBy n vp"

text \<open>
  Modelled from the spec: the missing \<open>HalfViewUp\<close> is \<open>scrollBy\<close> by half the height,
  upwards.
\<close>

definition HalfViewUp :: "Viewport \<Rightarrow> Viewport" where
  "HalfViewUp vp = scrollBy (- goDiv (Height vp) 2) vp"

text \<open>
  Modelled from the spec: the missing \<open>HalfViewDown\<close> is \<open>scrollBy\<close> by half the height,
  downwards.
\<close>

definition HalfViewDown :: "Viewport \<Rightarrow> Viewport" where
  "HalfViewDown vp = scrollBy (goDiv (Height vp) 2) vp"

section \<open>The views\<close>

definition systemPrompt :: string where
  "systemPrompt = ''You are a bash terminal helper AI. Unless the user asks otherwise, you will specify all solutions in bash commands ideally one liners if its simple. Before displaying the bash command code, you must surround it with <command></command> tags. Each <command> block must contain exactly one command - if you need to show multiple commands, use multiple <command> blocks. Do not insert ''"

definition helpMessage :: string where
  "helpMessage = ''GPT Terminal Help:\<newline>- Ctrl+J/K: Enter edit mode and navigate through messages\<newline>- Enter: Edit selected user message\<newline>- X: Execute command from selected assistant message\<newline>- Alt+X: Execute command from last assistant message\<newline>- Ctrl+R: Browse conversation history\<newline>- Ctrl+L: Load latest conversation\<newline>- Ctrl+N: Create new chat\<newline>- Ctrl+C: Quit\<newline>- Ctrl+H: Show this help\<newline>\<newline>Commands in responses are highlighted and can be executed. If multiple commands are present, you'll be prompted to choose one.''"

text \<open>The three backquotes that open and close a code block.\<close>

definition fence :: string where
  "fence = [CHR 0x60, CHR 0x60, CHR 0x60]"

text \<open>
  \<open>formatContent\<close>, first step: \<open>ReplaceAllStringFunc\<close> with the pattern of a code
  block (a fence, lazily anything up to a newline, lazily the code, a fence). A match
  starts at the first fence, the code starts behind the first newline after it and
  ends at the first fence after that; the text behind the last match is kept.
\<close>

function replaceCodeBlocks :: "Env \<Rightarrow> string \<Rightarrow> string" where
  "replaceCodeBlocks env s =
     (case splitFirst s fence of
        None \<Rightarrow> s
      | Some (before, r) \<Rightarrow>
          (case splitFirst r ''\<newline>'' of
             None \<Rightarrow> s
           | Some (lang, r2) \<Rightarrow>
               (case splitFirst r2 fence of
                  None \<Rightarrow> s
                | Some (code, r3) \<Rightarrow>
                    before @ ''\<newline>'' @ Render env codeBlockStyle code @ ''\<newline>'' @
                    replaceCodeBlocks env r3)))"
  by pat_completeness auto
termination
proof (relation "measure (\<lambda>(env, s). length s)")
  show "wf (measure (\<lambda>(env, s). length s))" by simp
next
  fix env :: Env and s x2 before r x2a lang r2 x2b code r3
  assume "splitFirst s fence = Some x2" "(before, r) = x2"
    "splitFirst r ''\<newline>'' = Some x2a" "(lang, r2) = x2a"
    "splitFirst r2 fence = Some x2b" "(code, r3) = x2b"
  then have "length s = length before + length fence + length r"
    and "length r = length lang + length ''\<newline>'' + length r2"
    and "length r2 = length code + length fence + length r3"
    by (auto dest: splitFirst_length)
  then show "((env, r3), (env, s)) \<in> measure (\<lambda>(env, s). length s)" by simp
qed

declare replaceCodeBlocks.simps [simp del]

text \<open>
  \<open>formatContent\<close>, second step: every command block is replaced by its trimmed
  command in \<open>commandStyle\<close>.
\<close>

function replaceCommands :: "Env \<Rightarrow> string \<Rightarrow> string" where
  "replaceCommands env s =
     (case splitFirst s openTag of
        None \<Rightarrow> s
      | Some (before, r) \<Rightarrow>
          (case splitFirst r closeTag of
             None \<Rightarrow> s
           | Some (cmd, r') \<Rightarrow>
               before @ Render env commandStyle (TrimSpace cmd) @ replaceCommands env r'))"
  by pat_completeness auto
termination
proof (relation "measure (\<lambda>(env, s). length s)")
  show "wf (measure (\<lambda>(env, s). length s))" by simp
next
  fix env :: Env and s x2 before r x2a cmd r'
  assume "splitFirst s openTag = Some x2" "(before, r) = x2"
    "splitFirst r closeTag = Some x2a" "(cmd, r') = x2a"
  then have "length s = length before + length openTag + length r"
    and "length r = length cmd + length closeTag + length r'"
    by (auto dest: splitFirst_length)
  then show "((env, r'), (env, s)) \<in> measure (\<lambda>(env, s). length s)"
    by (simp add: openTag_def)
qed

declare replaceCommands.simps [simp del]

definition formatContent :: "Env \<Rightarrow> string \<Rightarrow> string" where
  "formatContent env content = replaceCommands env (replaceCodeBlocks env content)"

definition normalEntry :: "Env \<Rightarrow> model \<Rightarrow> Message \<Rightarrow> string" where
  "normalEntry env m msg =
     (if Role msg = ''system'' then
        (if int (length (messages m)) > 1 then
           Render env scrollIndicatorStyle
             (''- Beginning of conversation ['' @
              FormatTime env ''Mon 02 Jan 2006 15:04'' (CreatedAt (conversation m)) @ ''] -'') @
           ''\<newline>\<newline>''
         else [])
      else if Role msg = ''assistant'' then
        Render env assistantLabelStyle ''assistant'' @ '' '' @
        Render env botStyle (formatContent env (Content msg)) @ ''\<newline>\<newline>''
      else
        Render env userLabelStyle ''user'' @ '' '' @
        Render env messageStyle (Content msg) @ ''\<newline>\<newline>'')"

definition normalView :: "Env \<Rightarrow> model \<Rightarrow> string" where
  "normalView env m = concat (map (normalEntry env m) (messages m))"

definition editingEntry :: "Env \<Rightarrow> model \<Rightarrow> nat \<times> Message \<Rightarrow> string" where
  "editingEntry env m im =
     (let i = fst im; msg = snd im;
          content = (if Role msg = ''assistant'' then formatContent env (Content msg) else [])
      in (if int i = cursorIndex m then
            (if Role msg = ''system'' then
               Render env systemStyle (Role msg @ '': '' @ Content msg)
             else if Role msg = ''user'' then
               Render env selectedLabelStyle ''user'' @ '' '' @
               Render env selectedMessageStyle (Content msg) @
               ''\<newline>'' @ Render env instructionBarStyle ''Press Enter to edit, C to copy message''
             else if Role msg = ''assistant'' then
               Render env selectedLabelStyle ''assistant'' @ '' '' @
               Render env selectedMessageStyle content @
               (if Contains (Content msg) ''<command>'' then
                  ''\<newline>'' @ Render env instructionBarStyle ''Press X to execute commands, C to copy message''
                else
                  ''\<newline>'' @ Render env instructionBarStyle ''Press C to copy message'')
             else [])
          else
            (if Role msg = ''system'' then
               Render env systemStyle (Role msg @ '': '' @ Content msg)
             else if Role msg = ''user'' then
               Render env userLabelStyle ''user'' @ '' '' @ Render env messageStyle (Content msg)
             else if Role msg = ''assistant'' then
               Render env assistantLabelStyle ''assistant'' @ '' '' @ Render env botStyle content
             else [])) @
         ''\<newline>\<newline>'')"

definition editingView :: "Env \<Rightarrow> model \<Rightarrow> string" where
  "editingView env m =
     ''Editing Mode\<newline>\<newline>'' @ concat (map (editingEntry env m) (enumerate 0 (messages m)))"

text \<open>
  \<open>sort.Slice\<close> with \<open>CreatedAt.After\<close>: the newest conversation first. Go leaves the
  order of conversations of the same time open; here they keep their order.
\<close>

definition sortByCreatedAt :: "Conversation list \<Rightarrow> Conversation list" where
  "sortByCreatedAt cs = sort_key (\<lambda>c. - CreatedAt c) cs"

definition historyEntry :: "Env \<Rightarrow> model \<Rightarrow> nat \<times> Conversation \<Rightarrow> string" where
  "historyEntry env m ic =
     (let i = fst ic; conv = snd ic;
          line = ''['' @ FormatTime env ''2006-01-02 15:04:05'' (CreatedAt conv) @ ''] '' @ Summary conv
      in if int i = selectedConv m then Render env selectedStyle line @ ''\<newline>''
         else line @ ''\<newline>'')"

definition historyView :: "Env \<Rightarrow> model \<Rightarrow> string" where
  "historyView env m =
     ''Conversation History (Press ESC to exit)\<newline>\<newline>'' @
     concat (map (historyEntry env m) (enumerate 0 (sortByCreatedAt (conversations m)))) @
     ''\<newline>''"

definition commandEntry :: "Env \<Rightarrow> model \<Rightarrow> nat \<times> (string \<times> string) \<Rightarrow> string" where
  "commandEntry env m im =
     (let i = fst im; cmd = snd (snd im);
          line = Itoa (int i + 1) @ '': '' @ cmd
      in (if int i = selectedCommand m then Render env selectedStyle line else line) @ ''\<newline>'')"

definition commandSelectView :: "Env \<Rightarrow> model \<Rightarrow> string" where
  "commandSelectView env m =
     (case commands m of
        [c] \<Rightarrow>
          ''Confirm command execution:\<newline>\<newline>'' @
          (if selectedCommand m = 0 then Render env selectedStyle (snd c) else snd c) @
          ''\<newline>\<newline>Press Enter to execute, ESC to cancel''
      | _ \<Rightarrow>
          ''Select a command to execute:\<newline>\<newline>'' @
          concat (map (commandEntry env m) (enumerate 0 (commands m))))"

section \<open>Keeping the viewport in step with the content\<close>

text \<open>
  \<open>updateViewport\<close>: the dimensions, the content of the current mode, and the previous
  offset restored, clamped to the new content. A previous offset below 0 is left as
  it is.
\<close>

definition modeContent :: "Env \<Rightarrow> model \<Rightarrow> string" where
  "modeContent env m =
     (case mode m of
        ModeNormal \<Rightarrow> normalView env m
      | ModeEditing \<Rightarrow> editingView env m
      | ModeHistory \<Rightarrow> historyView env m
      | ModeCommandSelect \<Rightarrow> commandSelectView env m
      | ModeHelp \<Rightarrow> helpMessage)"

definition updateViewport :: "Env \<Rightarrow> model \<Rightarrow> model" where
  "updateViewport env m =
     (let currentOffset = YOffset (viewport m);
          vp = SetContent (modeContent env m)
                 ((viewport m)\<lparr>Width := width m - 4, Height := height m - 7\<rparr>)
      in if mode m = ModeHelp then m\<lparr>viewport := GotoTop vp\<rparr>
         else
           (let maxOffset = (if TotalLineCount vp - Height vp < 0 then 0
                             else TotalLineCount vp - Height vp)
            in if currentOffset \<ge> 0 \<and> currentOffset \<le> maxOffset
               then m\<lparr>viewport := vp\<lparr>YOffset := currentOffset\<rparr>\<rparr>
               else if currentOffset > maxOffset
               then m\<lparr>viewport := vp\<lparr>YOffset := maxOffset\<rparr>\<rparr>
               else m\<lparr>viewport := vp\<rparr>))"

text \<open>
  \<open>ensureMessageVisible\<close>: the line of the message is the line of the \<open>index\<close>-th label,
  counted from 0; \<open>targetLine\<close> stays 0 when there is none.
\<close>

definition isLabelLine :: "Env \<Rightarrow> string \<Rightarrow> bool" where
  "isLabelLine env line =
     (Contains line (Render env userLabelStyle ''user'') \<or>
      Contains line (Render env assistantLabelStyle ''assistant'') \<or>
      Contains line (Render env selectedLabelStyle ''user'') \<or>
      Contains line (Render env selectedLabelStyle ''assistant''))"

fun findTargetLine :: "Env \<Rightarrow> int \<Rightarrow> int \<Rightarrow> int \<Rightarrow> string list \<Rightarrow> int" where
  "findTargetLine env idx currentMsg i [] = 0"
| "findTargetLine env idx currentMsg i (line # ls) =
     (if isLabelLine env line then
        (if currentMsg + 1 = idx then i
         else findTargetLine env idx (currentMsg + 1) (i + 1) ls)
      else findTargetLine env idx currentMsg (i + 1) ls)"

definition ensureMessageVisible :: "Env \<Rightarrow> int \<Rightarrow> model \<Rightarrow> model" where
  "ensureMessageVisible env idx m =
     (let content = editingView env m;
          vp = SetContent content (viewport m);
          ls = SplitLines content;
          targetLine = findTargetLine env idx (- 1) 0 ls;
          totalLines = int (length ls);
          maxScroll = (if totalLines - Height vp < 0 then 0 else totalLines - Height vp);
          desiredOffset0 = (if idx = int (length (messages m)) - 1 then maxScroll
                            else targetLine - goDiv (Height vp) 4);
          desiredOffset1 = (if desiredOffset0 < 0 then 0 else desiredOffset0);
          desiredOffset = (if desiredOffset1 > maxScroll then maxScroll else desiredOffset1)
      in m\<lparr>viewport := ((LineDown 1) ^^ nat desiredOffset) (GotoTop vp)\<rparr>)"

text \<open>
  \<open>ensureConversationVisible\<close>: the offset is assigned directly, clamped to a maximum
  that is one line more than the content needs ("to account for footer space").
\<close>

definition ensureConversationVisible :: "Env \<Rightarrow> int \<Rightarrow> model \<Rightarrow> model" where
  "ensureConversationVisible env idx m =
     (let content = historyView env m;
          vp = SetContent content (viewport m);
          ls = SplitLines content;
          targetLine = idx + 2;
          totalLines = int (length ls);
          maxScroll = (if totalLines - Height vp + 1 < 0 then 0 else totalLines - Height vp + 1);
          desiredOffset0 = targetLine - goDiv (Height vp) 2;
          desiredOffset1 = (if desiredOffset0 < 0 then 0 else desiredOffset0);
          desiredOffset = (if desiredOffset1 > maxScroll then maxScroll else desiredOffset1)
      in m\<lparr>viewport := vp\<lparr>YOffset := desiredOffset\<rparr>\<rparr>)"

section \<open>The event loop\<close>

definition systemMsg :: "World \<Rightarrow> Message" where
  "systemMsg w = \<lparr>Role = ''system'', Content = systemPrompt, Timestamp = now w\<rparr>"

text \<open>
  A fresh conversation, holding the hidden system prompt, as \<open>initialModel\<close> and
  "new chat" make it.
\<close>

definition newConversation :: "World \<Rightarrow> Conversation" where
  "newConversation w =
     \<lparr>ID = uuid w, Messages = [] @ [systemMsg w], CreatedAt = now w, Summary = []\<rparr>"

text \<open>
  \<open>initialModel\<close>, when the storage directory could be created (the program exits
  otherwise, before the loop starts).
\<close>

definition initialModel :: "World \<Rightarrow> model" where
  "initialModel w =
     \<lparr>textInput = \<lparr>tiValue = [], tiWidth = 0\<rparr>,
      viewport = \<lparr>YOffset = 0, Height = 0, Width = 0, lines = []\<rparr>,
      err = None,
      conversation = newConversation w,
      mode = ModeNormal,
      messages = Messages (newConversation w),
      cursorIndex = 0,
      conversations = [],
      selectedConv = 0,
      isLoading = False,
      height = 0,
      width = 0,
      commands = [],
      selectedCommand = 0,
      ready = False,
      lastLoadedConv = - 1\<rparr>"

text \<open>The messages of a completion request.\<close>

definition toClaudeMsgs :: "Message list \<Rightarrow> ClaudeMessage list" where
  "toClaudeMsgs ms = map (\<lambda>msg. \<lparr>cRole = Role msg, cContent = Content msg\<rparr>) ms"

text \<open>The summary of a conversation: its first user message, cut to 50 bytes.\<close>

definition summaryOf :: "string \<Rightarrow> string" where
  "summaryOf content = (if length content > 50 then take 47 content @ ''...'' else content)"

definition withSummary :: "Message list \<Rightarrow> Conversation \<Rightarrow> Conversation" where
  "withSummary ms conv =
     (case find (\<lambda>msg. Role msg = ''user'') ms of
        None \<Rightarrow> conv
      | Some msg \<Rightarrow> conv\<lparr>Summary := summaryOf (Content msg)\<rparr>)"

text \<open>\<open>getClipboardCommand\<close>: the arguments of the clipboard process, or an error.\<close>

definition getClipboardCommand :: "World \<Rightarrow> string + string list" where
  "getClipboardCommand w =
     (if GOOS w = ''darwin'' then Inr [''pbcopy'']
      else if GOOS w = ''linux'' then Inr [''xclip'', ''-selection'', ''clipboard'']
      else if GOOS w = ''windows'' then Inr [''clip'']
      else Inl ''unsupported platform for clipboard operations'')"

subsection \<open>\<open>handleCommandExecution\<close>\<close>

text \<open>
  The target of "execute": in \<open>ModeEditing\<close> the message at the cursor when it is of
  the assistant, otherwise the last message of the assistant; the empty text when
  there is none.
\<close>

definition targetMsg :: "model \<Rightarrow> panic + string" where
  "targetMsg m =
     (if mode m = ModeEditing then
        (case index (messages m) (cursorIndex m) of
           Inl p \<Rightarrow> Inl p
         | Inr msg \<Rightarrow> Inr (if Role msg = ''assistant'' then Content msg else []))
      else
        (case find (\<lambda>msg. Role msg = ''assistant'') (rev (messages m)) of
           None \<Rightarrow> Inr []
         | Some msg \<Rightarrow> Inr (Content msg)))"

definition handleCommandExecution :: "model \<Rightarrow> panic + (model \<times> Cmd)" where
  "handleCommandExecution m =
     (case targetMsg m of
        Inl p \<Rightarrow> Inl p
      | Inr t \<Rightarrow>
          if t = [] then Inr (m, CmdNil)
          else
            (let matches = FindAllStringSubmatch t
             in if length matches = 0 then Inr (m, CmdNil)
                else Inr (m\<lparr>mode := ModeCommandSelect,
                            commands := trimMatches matches,
                            selectedCommand := 0\<rparr>, CmdNil)))"

subsection \<open>\<open>Update\<close>\<close>

type_synonym result = "panic + (World \<times> model \<times> Cmd)"

definition inWorld :: "World \<Rightarrow> panic + (model \<times> Cmd) \<Rightarrow> result" where
  "inWorld w r = (case r of Inl p \<Rightarrow> Inl p | Inr mc \<Rightarrow> Inr (w, fst mc, snd mc))"

text \<open>
  The selection of the history list moves: \<open>ensureConversationVisible\<close> runs when the
  selected index has changed.
\<close>

definition moveSelectedConv :: "Env \<Rightarrow> int \<Rightarrow> model \<Rightarrow> model" where
  "moveSelectedConv env new m =
     (if selectedConv m \<noteq> new then ensureConversationVisible env new (m\<lparr>selectedConv := new\<rparr>)
      else m\<lparr>selectedConv := new\<rparr>)"

definition updateMouse :: "Env \<Rightarrow> World \<Rightarrow> model \<Rightarrow> MouseEventType \<Rightarrow> result" where
  "updateMouse env w m t =
     (case t of
        MouseWheelUp \<Rightarrow>
          (if mode m = ModeHistory
           then Inr (w, moveSelectedConv env (max 0 (selectedConv m - 1)) m, CmdNil)
           else Inr (w, m\<lparr>viewport := LineUp 3 (viewport m)\<rparr>, CmdNil))
      | MouseWheelDown \<Rightarrow>
          (if mode m = ModeHistory
           then Inr (w, moveSelectedConv env
                          (min (int (length (conversations m)) - 1) (selectedConv m + 1)) m, CmdNil)
           else Inr (w, m\<lparr>viewport := LineDown 3 (viewport m)\<rparr>, CmdNil))
      | MouseOther \<Rightarrow> Inr (w, m, CmdBatch))"

text \<open>"ctrl+j", "ctrl+k" (and the unreachable alt+j, alt+k of the normal mode).\<close>

definition enterEditing :: "Env \<Rightarrow> model \<Rightarrow> model" where
  "enterEditing env m =
     updateViewport env (m\<lparr>mode := ModeEditing, cursorIndex := int (length (messages m)) - 1\<rparr>)"

text \<open>"ctrl+l": the next conversation of the storage, newest first, becomes current.\<close>

definition loadNext :: "Env \<Rightarrow> World \<Rightarrow> model \<Rightarrow> result" where
  "loadNext env w m =
     (case ListConversations env (disk w) of
        Inl e \<Rightarrow> Inr (w, m\<lparr>err := Some e\<rparr>, CmdNil)
      | Inr convs \<Rightarrow>
          if length convs > 0 then
            (let sorted = sortByCreatedAt convs;
                 l = (if lastLoadedConv m + 1 \<ge> int (length sorted) then 0
                      else lastLoadedConv m + 1)
             in case index sorted l of
                  Inl p \<Rightarrow> Inl p
                | Inr conv \<Rightarrow>
                    (let m1 = updateViewport env
                                (m\<lparr>lastLoadedConv := l, conversation := conv,
                                   messages := Messages conv\<rparr>)
                     in Inr (w, m1\<lparr>viewport := GotoBottom (viewport m1)\<rparr>, CmdNil)))
          else Inr (w, m, CmdNil))"

text \<open>"ctrl+n": a new chat.\<close>

definition newChat :: "Env \<Rightarrow> World \<Rightarrow> model \<Rightarrow> result" where
  "newChat env w m =
     Inr (w, updateViewport env
               (m\<lparr>conversation := newConversation w,
                  messages := Messages (newConversation w),
                  mode := ModeNormal\<rparr>), CmdNil)"

text \<open>The end of the normal mode: the key goes to the text input.\<close>

definition finishNormal :: "Env \<Rightarrow> World \<Rightarrow> model \<Rightarrow> Key \<Rightarrow> result" where
  "finishNormal env w m k =
     Inr (w, m\<lparr>textInput := (textInput m)\<lparr>tiValue := tiUpdate env k (tiValue (textInput m))\<rparr>\<rparr>,
          CmdBatch)"

text \<open>
  Enter in the normal mode with a non-empty input: the user message is appended and
  a completion request is issued.
\<close>

definition sendMessage :: "Env \<Rightarrow> World \<Rightarrow> model \<Rightarrow> result" where
  "sendMessage env w m =
     (let userMsg = \<lparr>Role = ''user'', Content = tiValue (textInput m), Timestamp = now w\<rparr>;
          ms = messages m @ [userMsg];
          m1 = updateViewport env (m\<lparr>messages := ms, conversation := (conversation m)\<lparr>Messages := ms\<rparr>\<rparr>);
          m2 = m1\<lparr>viewport := GotoBottom (viewport m1)\<rparr>
      in Inr (w, m2\<lparr>isLoading := True, textInput := (textInput m2)\<lparr>tiValue := []\<rparr>\<rparr>,
              CmdCreateMessage (toClaudeMsgs ms)))"

definition updateNormal :: "Env \<Rightarrow> World \<Rightarrow> model \<Rightarrow> Key \<Rightarrow> result" where
  "updateNormal env w m k =
     (let s = keyString k
      in if s = ''up'' then Inr (w, m\<lparr>viewport := LineUp 3 (viewport m)\<rparr>, CmdNil)
         else if s = ''down'' then Inr (w, m\<lparr>viewport := LineDown 3 (viewport m)\<rparr>, CmdNil)
         else if s = ''pgup'' then Inr (w, m\<lparr>viewport := HalfViewUp (viewport m)\<rparr>, CmdNil)
         else if s = ''pgdn'' then Inr (w, m\<lparr>viewport := HalfViewDown (viewport m)\<rparr>, CmdNil)
         else if s = ''home'' then Inr (w, m\<lparr>viewport := GotoTop (viewport m)\<rparr>, CmdNil)
         else if s = ''end'' then Inr (w, m\<lparr>viewport := GotoBottom (viewport m)\<rparr>, CmdNil)
         else
           (case Type k of
              KeyEsc \<Rightarrow> Inr (w, m, CmdQuit)
            | KeyEnter \<Rightarrow>
                (if tiValue (textInput m) \<noteq> [] then sendMessage env w m
                 else finishNormal env w m k)
            | KeyRunes \<Rightarrow>
                (if Alt k \<and> (s = ''j'' \<or> s = ''k'') then Inr (w, enterEditing env m, CmdNil)
                 else finishNormal env w m k)
            | KeyCtrlR \<Rightarrow>
                (case ListConversations env (disk w) of
                   Inl e \<Rightarrow> Inr (w, m\<lparr>mode := ModeHistory, err := Some e\<rparr>, CmdNil)
                 | Inr convs \<Rightarrow>
                     finishNormal env w
                       (updateViewport env
                          (m\<lparr>mode := ModeHistory, conversations := convs, selectedConv := 0\<rparr>)) k)
            | KeyCtrlH \<Rightarrow> Inr (w, m\<lparr>mode := ModeHelp\<rparr>, CmdNil)
            | _ \<Rightarrow> finishNormal env w m k))"

definition updateEditing :: "Env \<Rightarrow> World \<Rightarrow> model \<Rightarrow> Key \<Rightarrow> result" where
  "updateEditing env w m k =
     (case Type k of
        KeyEsc \<Rightarrow> Inr (w, updateViewport env (m\<lparr>mode := ModeNormal\<rparr>), CmdBatch)
      | KeyRunes \<Rightarrow>
          (let s = keyString k
           in if s = ''k'' then
                (if cursorIndex m > 1
                 then Inr (w, ensureMessageVisible env (cursorIndex m - 1)
                                (m\<lparr>cursorIndex := cursorIndex m - 1\<rparr>), CmdNil)
                 else Inr (w, m, CmdBatch))
              else if s = ''j'' then
                (if cursorIndex m < int (length (messages m)) - 1
                 then Inr (w, ensureMessageVisible env (cursorIndex m + 1)
                                (m\<lparr>cursorIndex := cursorIndex m + 1\<rparr>), CmdNil)
                 else Inr (w, m, CmdBatch))
              else if s = ''x'' then
                (case index (messages m) (cursorIndex m) of
                   Inl p \<Rightarrow> Inl p
                 | Inr msg \<Rightarrow>
                     if Role msg = ''assistant'' then inWorld w (handleCommandExecution m)
                     else Inr (w, m, CmdBatch))
              else if s = ''c'' then
                (if cursorIndex m < int (length (messages m)) then
                   (case index (messages m) (cursorIndex m) of
                      Inl p \<Rightarrow> Inl p
                    | Inr msg \<Rightarrow>
                        (case getClipboardCommand w of
                           Inl e \<Rightarrow> Inr (w, m\<lparr>err := Some e\<rparr>, CmdNil)
                         | Inr argv \<Rightarrow>
                             Inr (w, m\<lparr>mode := ModeNormal\<rparr>, CmdClipboard argv (Content msg))))
                 else Inr (w, m, CmdBatch))
              else Inr (w, m, CmdBatch))
      | KeyUp \<Rightarrow> Inr (w, m\<lparr>viewport := LineUp 3 (viewport m)\<rparr>, CmdNil)
      | KeyDown \<Rightarrow> Inr (w, m\<lparr>viewport := LineDown 3 (viewport m)\<rparr>, CmdNil)
      | KeyEnter \<Rightarrow>
          (case index (messages m) (cursorIndex m) of
             Inl p \<Rightarrow> Inl p
           | Inr msg \<Rightarrow>
               if Role msg = ''user''
               then Inr (w, m, CmdEditMessage (Content msg) (cursorIndex m))
               else Inr (w, updateViewport env (m\<lparr>mode := ModeNormal\<rparr>), CmdBatch))
      | _ \<Rightarrow> Inr (w, m, CmdBatch))"

definition updateHistory :: "Env \<Rightarrow> World \<Rightarrow> model \<Rightarrow> Key \<Rightarrow> result" where
  "updateHistory env w m k =
     (let n = int (length (conversations m))
      in case Type k of
           KeyEsc \<Rightarrow> Inr (w, updateViewport env (m\<lparr>mode := ModeNormal\<rparr>), CmdBatch)
         | KeyUp \<Rightarrow> Inr (w, moveSelectedConv env (max 0 (selectedConv m - 1)) m, CmdNil)
         | KeyDown \<Rightarrow> Inr (w, moveSelectedConv env (min (n - 1) (selectedConv m + 1)) m, CmdNil)
         | KeyPgUp \<Rightarrow>
             Inr (w, moveSelectedConv env (max 0 (selectedConv m - Height (viewport m))) m, CmdNil)
         | KeyPgDown \<Rightarrow>
             Inr (w, moveSelectedConv env (min (n - 1) (selectedConv m + Height (viewport m))) m,
                  CmdNil)
         | KeyHome \<Rightarrow> Inr (w, ensureConversationVisible env 0 (m\<lparr>selectedConv := 0\<rparr>), CmdNil)
         | KeyEnd \<Rightarrow>
             Inr (w, ensureConversationVisible env (n - 1) (m\<lparr>selectedConv := n - 1\<rparr>), CmdNil)
         | KeyEnter \<Rightarrow>
             (if n > 0 then
                (case index (sortByCreatedAt (conversations m)) (selectedConv m) of
                   Inl p \<Rightarrow> Inl p
                 | Inr conv \<Rightarrow>
                     (let m1 = updateViewport env
                                 (m\<lparr>conversation := conv, messages := Messages conv,
                                    mode := ModeNormal\<rparr>)
                      in Inr (w, m1\<lparr>viewport := GotoBottom (viewport m1)\<rparr>, CmdBatch)))
              else Inr (w, m, CmdBatch))
         | _ \<Rightarrow> Inr (w, m, CmdBatch))"

definition updateCommandSelect :: "Env \<Rightarrow> World \<Rightarrow> model \<Rightarrow> Key \<Rightarrow> result" where
  "updateCommandSelect env w m k =
     (let n = int (length (commands m))
      in case Type k of
           KeyEsc \<Rightarrow> Inr (w, m\<lparr>mode := ModeNormal\<rparr>, CmdBatch)
         | KeyUp \<Rightarrow>
             (if selectedCommand m > 0
              then Inr (w, m\<lparr>selectedCommand := selectedCommand m - 1\<rparr>, CmdBatch)
              else Inr (w, m, CmdBatch))
         | KeyDown \<Rightarrow>
             (if selectedCommand m < n - 1
              then Inr (w, m\<lparr>selectedCommand := selectedCommand m + 1\<rparr>, CmdBatch)
              else Inr (w, m, CmdBatch))
         | KeyEnter \<Rightarrow>
             (if n > 0 then
                (case index (commands m) (selectedCommand m) of
                   Inl p \<Rightarrow> Inl p
                 | Inr c \<Rightarrow> Inr (w, m\<lparr>mode := ModeNormal\<rparr>, CmdExecuteCommand (snd c)))
              else Inr (w, m, CmdBatch))
         | KeyRunes \<Rightarrow>
             (let s = keyString k
              in if s = ''c'' then
                   (if n > 0 then
                      (case index (commands m) (selectedCommand m) of
                         Inl p \<Rightarrow> Inl p
                       | Inr c \<Rightarrow>
                           (case getClipboardCommand w of
                              Inl e \<Rightarrow> Inr (w, m\<lparr>err := Some e\<rparr>, CmdNil)
                            | Inr argv \<Rightarrow>
                                Inr (w, m\<lparr>mode := ModeNormal\<rparr>, CmdClipboard argv (snd c))))
                    else Inr (w, m, CmdBatch))
                 else
                   (case Atoi s of
                      None \<Rightarrow> Inr (w, m, CmdBatch)
                    | Some num \<Rightarrow>
                        if num > 0 \<and> num \<le> n then
                          (case index (commands m) (num - 1) of
                             Inl p \<Rightarrow> Inl p
                           | Inr c \<Rightarrow> Inr (w, m\<lparr>mode := ModeNormal\<rparr>, CmdExecuteCommand (snd c)))
                        else Inr (w, m, CmdBatch)))
         | _ \<Rightarrow> Inr (w, m, CmdBatch))"

definition updateKey :: "Env \<Rightarrow> World \<Rightarrow> model \<Rightarrow> Key \<Rightarrow> result" where
  "updateKey env w m k =
     (let s = keyString k
      in if s = ''ctrl+c'' then Inr (w, m, CmdQuit)
         else if s = ''ctrl+x'' then inWorld w (handleCommandExecution m)
         else if s = ''ctrl+j'' \<or> s = ''ctrl+k'' then Inr (w, enterEditing env m, CmdNil)
         else if s = ''ctrl+l'' then loadNext env w m
         else if s = ''ctrl+n'' then newChat env w m
         else if s = ''ctrl+h'' then Inr (w, updateViewport env (m\<lparr>mode := ModeHelp\<rparr>), CmdNil)
         else
           (case mode m of
              ModeNormal \<Rightarrow> updateNormal env w m k
            | ModeEditing \<Rightarrow> updateEditing env w m k
            | ModeHistory \<Rightarrow> updateHistory env w m k
            | ModeCommandSelect \<Rightarrow> updateCommandSelect env w m k
            | ModeHelp \<Rightarrow> Inr (w, updateViewport env (m\<lparr>mode := ModeNormal\<rparr>), CmdNil)))"

text \<open>
  The storage is written, and the error of the write, if any, goes to \<open>m.err\<close>.
\<close>

definition saveCurrent :: "Env \<Rightarrow> World \<Rightarrow> model \<Rightarrow> World \<times> model" where
  "saveCurrent env w m =
     (case SaveConversation env (disk w) (conversation m) of
        (None, d) \<Rightarrow> (w\<lparr>disk := d\<rparr>, m)
      | (Some e, d) \<Rightarrow> (w\<lparr>disk := d\<rparr>, m\<lparr>err := Some e\<rparr>))"

text \<open>The reply of a completion request.\<close>

definition updateApiResponse :: "Env \<Rightarrow> World \<Rightarrow> model \<Rightarrow> string \<Rightarrow> string option \<Rightarrow> result" where
  "updateApiResponse env w m response e =
     (case e of
        Some er \<Rightarrow> Inr (w, m\<lparr>isLoading := False, err := Some er\<rparr>, CmdNil)
      | None \<Rightarrow>
          (let botMsg = \<lparr>Role = ''assistant'', Content = response, Timestamp = now w\<rparr>;
               ms = messages m @ [botMsg];
               conv1 = (conversation m)\<lparr>Messages := ms\<rparr>;
               conv2 = (if Summary conv1 = [] then withSummary ms conv1 else conv1);
               (w', m1) = saveCurrent env w (m\<lparr>isLoading := False, messages := ms, conversation := conv2\<rparr>);
               m2 = updateViewport env m1
           in Inr (w', m2\<lparr>viewport := GotoBottom (viewport m2)\<rparr>, CmdBatch)))"

text \<open>
  The result of the editor: the message is overwritten, the conversation is cut
  behind it, saved, and a completion request is issued.
\<close>

definition updateEditMessage :: "Env \<Rightarrow> World \<Rightarrow> model \<Rightarrow> int \<Rightarrow> string \<Rightarrow> string option \<Rightarrow> result" where
  "updateEditMessage env w m idx edited e =
     (case e of
        Some er \<Rightarrow> Inr (w, m\<lparr>err := Some er\<rparr>, CmdNil)
      | None \<Rightarrow>
          (case index (messages m) idx of
             Inl p \<Rightarrow> Inl p
           | Inr old \<Rightarrow>
               (let ms = take (nat (idx + 1)) ((messages m)[nat idx := old\<lparr>Content := edited\<rparr>]);
                    conv1 = (conversation m)\<lparr>Messages := ms\<rparr>;
                    m1 = updateViewport env (m\<lparr>messages := ms, conversation := conv1\<rparr>);
                    m2 = m1\<lparr>viewport := GotoBottom (viewport m1), conversation := withSummary ms conv1\<rparr>;
                    (w', m3) = saveCurrent env w m2
                in Inr (w', m3\<lparr>mode := ModeNormal, isLoading := True\<rparr>,
                        CmdCreateMessage (toClaudeMsgs ms)))))"

text \<open>The output of an executed command.\<close>

definition updateCommandOutput :: "Env \<Rightarrow> World \<Rightarrow> model \<Rightarrow> string \<Rightarrow> string option \<Rightarrow> result" where
  "updateCommandOutput env w m output e =
     (case e of
        Some er \<Rightarrow> Inr (w, m\<lparr>err := Some er\<rparr>, CmdNil)
      | None \<Rightarrow>
          (let botMsg = \<lparr>Role = ''assistant'', Content = fence @ ''\<newline>'' @ output @ fence,
                         Timestamp = now w\<rparr>;
               ms = messages m @ [botMsg];
               (w', m1) = saveCurrent env w
                            (m\<lparr>messages := ms, conversation := (conversation m)\<lparr>Messages := ms\<rparr>\<rparr>);
               m2 = updateViewport env m1
           in Inr (w', m2\<lparr>viewport := GotoBottom (viewport m2)\<rparr>, CmdNil)))"

definition Update :: "Env \<Rightarrow> World \<Rightarrow> model \<Rightarrow> Msg \<Rightarrow> result" where
  "Update env w m msg =
     (case msg of
        WindowSizeMsg wd ht \<Rightarrow>
          Inr (w, updateViewport env
                    (m\<lparr>height := ht, width := wd, ready := True,
                       textInput := (textInput m)\<lparr>tiWidth := wd - 4\<rparr>\<rparr>), CmdNil)
      | MouseMsg t \<Rightarrow> updateMouse env w m t
      | KeyMsg k \<Rightarrow> updateKey env w m k
      | apiResponseMsg response e \<Rightarrow> updateApiResponse env w m response e
      | editMessageMsg idx edited e \<Rightarrow> updateEditMessage env w m idx edited e
      | commandOutputMsg output e \<Rightarrow> updateCommandOutput env w m output e
      | scrollMsg offset \<Rightarrow> Inr (w, m\<lparr>viewport := (viewport m)\<lparr>YOffset := offset\<rparr>\<rparr>, CmdNil)
      | otherMsg \<Rightarrow> Inr (w, m, CmdBatch))"

text \<open>
  \<open>executeCommand\<close>: the message that the command of a shell run returns. The run
  itself is the world's: \<open>out\<close> is the combined output of \<open>sh -c cmdStr\<close> and \<open>e\<close> its
  error (\<open>None\<close> when the command exits with status 0).
\<close>

definition executeCommand :: "string \<Rightarrow> string \<Rightarrow> string option \<Rightarrow> Msg" where
  "executeCommand cmdStr out e =
     (let status = (case e of
                      Some er \<Rightarrow> ''Command failed: '' @ er @ ''\<newline>''
                    | None \<Rightarrow> ''Command executed successfully\<newline>'')
      in commandOutputMsg
           (''Command ran: '' @ cmdStr @ ''\<newline>Command result:\<newline>'' @ status @ out) e)"

subsection \<open>The external editor\<close>

text \<open>
  What the world does while \<open>editMessageCmd\<close> runs: the result of \<open>os.CreateTemp\<close> (an
  error, or the name of the new file), the error of \<open>tmpFile.WriteString\<close>, what the
  editor leaves in the file together with the error of its process, and the error of
  \<open>os.ReadFile\<close>. An error is \<open>None\<close> for \<open>nil\<close>.
\<close>

record EditorRun =
  createTemp :: "string + string"
  writeString :: "string option"
  runEditor :: "string \<Rightarrow> string \<times> string option"
  readFile :: "string option"

text \<open>
  \<open>editMessageCmd\<close> together with the callback that \<open>tea.ExecProcess\<close> runs when the
  editor has exited: the temporary files afterwards (a map from names to contents)
  and the message that goes back to \<open>Update\<close>. \<open>os.Remove\<close> is deferred in the
  callback only; the two early returns come before it.
\<close>

definition editMessageCmd :: "EditorRun \<Rightarrow> (string \<rightharpoonup> string) \<Rightarrow> string \<Rightarrow> int \<Rightarrow> (string \<rightharpoonup> string) \<times> Msg" where
  "editMessageCmd r fs content idx =
     (case createTemp r of
        Inl e \<Rightarrow> (fs, editMessageMsg idx [] (Some e))
      | Inr name \<Rightarrow>
          (case writeString r of
             Some e \<Rightarrow> (fs(name \<mapsto> []), editMessageMsg idx [] (Some e))
           | None \<Rightarrow>
               (let (edited, editorErr) = runEditor r content;
                    fs' = (fs(name \<mapsto> edited))(name := None)
                in case editorErr of
                     Some e \<Rightarrow> (fs', editMessageMsg idx [] (Some e))
                   | None \<Rightarrow>
                       (case readFile r of
                          Some e \<Rightarrow> (fs', editMessageMsg idx [] (Some e))
                        | None \<Rightarrow> (fs', editMessageMsg idx edited None)))))"

subsection \<open>Properties of a state and of a step\<close>

text \<open>
  The offset of the viewport lies between 0 and the last offset that shows a full
  page, \<open>max(0, totalLines - viewportHeight)\<close>, plus \<open>slack\<close> lines.
\<close>

definition offsetInRange :: "int \<Rightarrow> Viewport \<Rightarrow> bool" where
  "offsetInRange slack vp =
     (0 \<le> YOffset vp \<and> YOffset vp \<le> max 0 (TotalLineCount vp - Height vp + slack))"

text \<open>
  The offset that every reachable state has: it is never negative, and in a viewport
  whose height is not 0 it is at most one line beyond the last full page.
\<close>

definition offsetValid :: "Viewport \<Rightarrow> bool" where
  "offsetValid vp = (0 \<le> YOffset vp \<and> (Height vp \<noteq> 0 \<longrightarrow> offsetInRange 1 vp))"


definition isScrollMsg :: "Msg \<Rightarrow> bool" where
  "isScrollMsg msg = (case msg of scrollMsg offset \<Rightarrow> True | _ \<Rightarrow> False)"

text \<open>The command is a completion request.\<close>

definition isRequest :: "Cmd \<Rightarrow> bool" where
  "isRequest c = (case c of CmdCreateMessage ms \<Rightarrow> True | _ \<Rightarrow> False)"



subsection \<open>Reachable states\<close>

text \<open>
  The states that the loop reaches from the initial model by messages that satisfy
  \<open>allowed\<close>. The world of every step is arbitrary: between two messages anything may
  happen outside the program.
\<close>

inductive reachableBy :: "(Msg \<Rightarrow> bool) \<Rightarrow> Env \<Rightarrow> model \<Rightarrow> bool" for allowed :: "Msg \<Rightarrow> bool" and env :: Env where
  start: "reachableBy allowed env (initialModel w)"
| step: "reachableBy allowed env m \<Longrightarrow> allowed msg \<Longrightarrow> Update env w m msg = Inr (w', m', c) \<Longrightarrow>
         reachableBy allowed env m'"

text \<open>
  The loop on a list of messages, in one fixed world but for what \<open>Update\<close> writes to
  the storage: the final model and the commands returned, or the panic.
\<close>

fun run :: "Env \<Rightarrow> World \<Rightarrow> model \<Rightarrow> Msg list \<Rightarrow> panic + (World \<times> model \<times> Cmd list)" where
  "run env w m [] = Inr (w, m, [])"
| "run env w m (msg # msgs) =
     (case Update env w m msg of
        Inl p \<Rightarrow> Inl p
      | Inr (w', m', c) \<Rightarrow>
          (case run env w' m' msgs of
             Inl p \<Rightarrow> Inl p
           | Inr (w'', m'', cs) \<Rightarrow> Inr (w'', m'', c # cs)))"

subsection \<open>A concrete environment\<close>

text \<open>
  An environment and a world for concrete runs: styles that render a text as it is,
  a text input that appends the runes typed, an empty and writable storage.
\<close>

definition plainEnv :: Env where
  "plainEnv =
     \<lparr>Unmarshal = (\<lambda>bytes. None),
      MarshalIndent = (\<lambda>conv. Inr (ID conv)),
      FormatTime = (\<lambda>layout t. ''t''),
      Render = (\<lambda>style s. s),
      tiUpdate = (\<lambda>k v. if Type k = KeyRunes then v @ Runes k else v)\<rparr>"

definition emptyWorld :: World where
  "emptyWorld =
     \<lparr>disk = \<lparr>dirErr = None, files = [], writeErr = None\<rparr>,
      now = 0, uuid = ''id'', GOOS = ''linux''\<rparr>"

definition key :: "KeyType \<Rightarrow> Msg" where
  "key t = KeyMsg \<lparr>Type = t, Runes = [], Alt = False\<rparr>"

definition typed :: "string \<Rightarrow> Msg" where
  "typed s = KeyMsg \<lparr>Type = KeyRunes, Runes = s, Alt = False\<rparr>"

text \<open>An editor run in which the write to the temporary file fails.\<close>

definition fullDisk :: EditorRun where
  "fullDisk =
     \<lparr>createTemp = Inr ''/tmp/gpt-term-edit-1.txt'',
      writeString = Some ''no space left on device'',
      runEditor = (\<lambda>content. (content, None)),
      readFile = None\<rparr>"

text \<open>The conversation of a system prompt and "hi", waiting for the reply.\<close>

definition chat2 :: model where
  "chat2 =
     (initialModel emptyWorld)
       \<lparr>messages := [systemMsg emptyWorld, \<lparr>Role = ''user'', Content = ''hi'', Timestamp = 1\<rparr>],
        conversation := (newConversation emptyWorld)
          \<lparr>Messages := [systemMsg emptyWorld, \<lparr>Role = ''user'', Content = ''hi'', Timestamp = 1\<rparr>]\<rparr>,
        isLoading := True\<rparr>"

text \<open>The conversation of a system prompt, "hi" and "hello".\<close>

definition chat3Messages :: "Message list" where
  "chat3Messages =
     [systemMsg emptyWorld,
      \<lparr>Role = ''user'', Content = ''hi'', Timestamp = 1\<rparr>,
      \<lparr>Role = ''assistant'', Content = ''hello'', Timestamp = 2\<rparr>]"

definition chat3 :: model where
  "chat3 =
     (initialModel emptyWorld)
       \<lparr>messages := chat3Messages,
        conversation := (newConversation emptyWorld)\<lparr>Messages := chat3Messages\<rparr>\<rparr>"

text \<open>
  A storage directory with a conversation, an unreadable file, a file that does not
  parse, a file of another extension, and two more conversations.
\<close>

definition jsonEnv :: Env where
  "jsonEnv = plainEnv\<lparr>Unmarshal := (\<lambda>bytes. if bytes = ''{}'' then Some (newConversation emptyWorld) else None)\<rparr>"

definition someDisk :: Disk where
  "someDisk =
     \<lparr>dirErr = None,
      files = [(''a.convo'', Some ''{}''), (''b.convo'', None), (''c.convo'', Some ''{''),
               (''d.txt'', Some ''{}''), (''e.convo'', Some ''{}''), (''f.convo'', Some ''{}'')],
      writeErr = None\<rparr>"

text \<open>
  The same conversation in a terminal of 80 columns and 24 lines, with a new input
  typed while the reply is awaited.
\<close>

definition chat2typing :: model where
  "chat2typing =
     updateViewport plainEnv
       (chat2\<lparr>textInput := \<lparr>tiValue = ''and then?'', tiWidth = 76\<rparr>,
              height := 24, width := 80, ready := True\<rparr>)"





text \<open>
  A terminal of 24 lines, the input "a" sent with Enter, and the input "b" typed while
  the reply is awaited.
\<close>

definition twoSends :: "Msg list" where
  "twoSends = [WindowSizeMsg 80 24, typed ''a'', key KeyEnter, typed ''b'']"

text \<open>
  A terminal of 8 lines (a viewport of one line), the input "hi" sent with Enter, and
  a reply of 16 lines.
\<close>

definition longReply :: string where
  "longReply = ''1\<newline>2\<newline>3\<newline>4\<newline>5\<newline>6\<newline>7\<newline>8\<newline>9\<newline>10\<newline>11\<newline>12\<newline>13\<newline>14\<newline>15\<newline>16''"

definition longReplyKeys :: "Msg list" where
  "longReplyKeys =
     [WindowSizeMsg 80 8, typed ''hi'', key KeyEnter, apiResponseMsg longReply None]"

section \<open>Properties of the extraction\<close>

lemma splitFirst_Some: "splitFirst s sep = Some (b, a) \<Longrightarrow> s = b @ sep @ a"
proof (induction s arbitrary: b)
  case Nil
  then show ?case by (simp split: if_splits)
next
  case (Cons c s)
  show ?case
  proof (cases "HasPrefix (c # s) sep")
    case True
    then have "take (length sep) (c # s) = sep" by (simp add: HasPrefix_def)
    moreover from True Cons.prems have "b = []" and "a = drop (length sep) (c # s)"
      by simp_all
    ultimately show ?thesis by (metis append_Nil append_take_drop_id)
  next
    case False
    with Cons.prems obtain b' where "splitFirst s sep = Some (b', a)" and "b = c # b'"
      by (auto split: option.splits)
    with Cons.IH show ?thesis by simp
  qed
qed

lemma splitFirst_leftmost:
  "splitFirst s sep = Some (b, a) \<Longrightarrow> s = b' @ sep @ a' \<Longrightarrow> length b \<le> length b'"
proof (induction s arbitrary: b b')
  case Nil
  then show ?case by (simp split: if_splits)
next
  case (Cons c s)
  show ?case
  proof (cases "HasPrefix (c # s) sep")
    case True
    with Cons.prems(1) have "b = []" by simp
    then show ?thesis by simp
  next
    case False
    with Cons.prems(1) obtain b0 where b0: "splitFirst s sep = Some (b0, a)" "b = c # b0"
      by (auto split: option.splits)
    show ?thesis
    proof (cases b')
      case Nil
      with Cons.prems(2) have "HasPrefix (c # s) sep" by (simp add: HasPrefix_def)
      with False show ?thesis by simp
    next
      case (Cons d b1)
      with Cons.prems(2) have "s = b1 @ sep @ a'" by simp
      with Cons.IH b0(1) have "length b0 \<le> length b1" by blast
      with b0(2) Cons show ?thesis by simp
    qed
  qed
qed

lemma splitFirst_None: "splitFirst s sep = None \<Longrightarrow> s \<noteq> b @ sep @ a"
proof (induction s arbitrary: b)
  case Nil
  then show ?case by (simp split: if_splits)
next
  case (Cons c s)
  then have np: "\<not> HasPrefix (c # s) sep" and n: "splitFirst s sep = None"
    by (auto split: if_splits option.splits)
  show ?case
  proof (cases b)
    case Nil
    with np show ?thesis by (auto simp: HasPrefix_def)
  next
    case (Cons d b1)
    with Cons.IH [OF n] show ?thesis by auto
  qed
qed

lemma splitFirst_unique:
  assumes "splitFirst s sep = Some (b, a)" and "b @ sep = x @ sep @ y"
  shows "x = b"
proof -
  from assms(1) have s: "s = b @ sep @ a" by (rule splitFirst_Some)
  with assms(2) have "s = x @ sep @ (y @ a)" by simp
  with assms(1) have "length b \<le> length x" by (rule splitFirst_leftmost)
  moreover from assms(2) have "length b + length sep = length x + length sep + length y"
    by (metis length_append add.assoc)
  ultimately have "length x = length b" by simp
  with assms(2) show ?thesis by (metis append_eq_append_conv append.assoc)
qed


lemma trimLeftWith_no_space: "spaceLen tbl (trimLeftWith tbl s) = 0"
proof (induction tbl s rule: trimLeftWith.induct)
  case (1 tbl s)
  show ?case
  proof (cases "spaceLen tbl s = 0")
    case True
    then show ?thesis by (simp add: trimLeftWith.simps)
  next
    case False
    with "1.IH" show ?thesis by (simp add: trimLeftWith.simps)
  qed
qed

lemma trimLeftWith_suffix: "\<exists>n. trimLeftWith tbl s = drop n s"
proof (induction tbl s rule: trimLeftWith.induct)
  case (1 tbl s)
  show ?case
  proof (cases "spaceLen tbl s = 0")
    case True
    then have "trimLeftWith tbl s = drop 0 s" by (simp add: trimLeftWith.simps)
    then show ?thesis by blast
  next
    case False
    with "1.IH" obtain n where "trimLeftWith tbl (drop (spaceLen tbl s) s) = drop n (drop (spaceLen tbl s) s)"
      by blast
    with False have "trimLeftWith tbl s = drop (n + spaceLen tbl s) s"
      by (simp add: trimLeftWith.simps [of tbl s])
    then show ?thesis by blast
  qed
qed

lemma HasPrefix_take: "HasPrefix (take n s) u \<Longrightarrow> HasPrefix s u"
proof -
  assume a: "HasPrefix (take n s) u"
  then have "length u \<le> length (take n s)" by (rule HasPrefix_length)
  then have "length u \<le> n" by simp
  then have "take (length u) (take n s) = take (length u) s" by (simp add: min_def)
  with a show ?thesis by (simp add: HasPrefix_def)
qed

lemma spaceLen_take: "spaceLen tbl s = 0 \<Longrightarrow> spaceLen tbl (take n s) = 0"
proof (cases "take n s")
  case Nil
  have "spaceLen tbl [] = 0" by (simp add: spaceLen_def)
  with Nil show ?thesis by (simp only:)
next
  case (Cons c r)
  assume z: "spaceLen tbl s = 0"
  from Cons obtain r' where s: "s = c # r'" by (cases s; cases n) auto
  from z s have na: "\<not> asciiSpace c" by (auto simp: spaceLen_def split: if_splits)
  from z s na have "find (\<lambda>u. u \<noteq> [] \<and> HasPrefix s u) tbl = None"
    by (auto simp: spaceLen_def find_Some_iff split: option.splits)
  then have "\<forall>u\<in>set tbl. \<not> (u \<noteq> [] \<and> HasPrefix s u)" by (simp add: find_None_iff)
  then have "\<forall>u\<in>set tbl. \<not> (u \<noteq> [] \<and> HasPrefix (take n s) u)"
    using HasPrefix_take by blast
  then have "find (\<lambda>u. u \<noteq> [] \<and> HasPrefix (take n s) u) tbl = None"
    by (simp add: find_None_iff)
  with Cons na show ?thesis by (simp add: spaceLen_def)
qed

lemma TrimSpace_no_leading: "\<not> leadingSpace (TrimSpace s)"
proof -
  obtain n where n: "trimLeftWith (map rev unicodeSpaces) (rev (TrimLeftSpace s)) = drop n (rev (TrimLeftSpace s))"
    using trimLeftWith_suffix by blast
  have "TrimSpace s = take (length (TrimLeftSpace s) - n) (TrimLeftSpace s)"
    by (simp add: TrimSpace_def TrimRightSpace_def n rev_drop)
  moreover have "spaceLen unicodeSpaces (TrimLeftSpace s) = 0"
    by (simp add: TrimLeftSpace_def trimLeftWith_no_space)
  ultimately show ?thesis by (simp add: leadingSpace_def spaceLen_take)
qed

lemma TrimSpace_no_trailing: "\<not> trailingSpace (TrimSpace s)"
  by (simp add: trailingSpace_def TrimSpace_def TrimRightSpace_def trimLeftWith_no_space)


lemma spaceLen_rune:
  assumes "spaceLen tbl s \<noteq> 0"
  shows "(\<exists>c. take (spaceLen tbl s) s = [c] \<and> asciiSpace c) \<or> take (spaceLen tbl s) s \<in> set tbl"
proof (cases s)
  case Nil
  with assms show ?thesis by (simp add: spaceLen_def)
next
  case (Cons c r)
  show ?thesis
  proof (cases "asciiSpace c")
    case True
    with Cons show ?thesis by (simp add: spaceLen_def)
  next
    case False
    with assms Cons obtain u where u: "find (\<lambda>u. u \<noteq> [] \<and> HasPrefix s u) tbl = Some u"
      by (auto simp: spaceLen_def split: option.splits)
    then have "u \<in> set tbl" and "HasPrefix s u" by (auto simp: find_Some_iff)
    moreover from u False Cons have "spaceLen tbl s = length u" by (simp add: spaceLen_def)
    ultimately show ?thesis by (simp add: HasPrefix_def)
  qed
qed

lemma trimLeftWith_decomp:
  "\<exists>us. s = concat us @ trimLeftWith tbl s \<and>
     list_all (\<lambda>u. (\<exists>c. u = [c] \<and> asciiSpace c) \<or> u \<in> set tbl) us"
proof (induction tbl s rule: trimLeftWith.induct)
  case (1 tbl s)
  show ?case
  proof (cases "spaceLen tbl s = 0")
    case True
    then have "s = concat [] @ trimLeftWith tbl s \<and>
        list_all (\<lambda>u. (\<exists>c. u = [c] \<and> asciiSpace c) \<or> u \<in> set tbl) []"
      by (simp add: trimLeftWith.simps)
    then show ?thesis by (rule exI)
  next
    case False
    let ?n = "spaceLen tbl s"
    from "1.IH" [OF False] obtain us where
      us: "drop ?n s = concat us @ trimLeftWith tbl (drop ?n s)"
        "list_all (\<lambda>u. (\<exists>c. u = [c] \<and> asciiSpace c) \<or> u \<in> set tbl) us"
      by blast
    from False have t: "trimLeftWith tbl s = trimLeftWith tbl (drop ?n s)"
      by (simp add: trimLeftWith.simps [of tbl s])
    have "s = take ?n s @ drop ?n s" by simp
    with us(1) t have "s = concat (take ?n s # us) @ trimLeftWith tbl s" by simp
    moreover from spaceLen_rune [OF False] us(2)
    have "list_all (\<lambda>u. (\<exists>c. u = [c] \<and> asciiSpace c) \<or> u \<in> set tbl) (take ?n s # us)"
      by simp
    ultimately show ?thesis by blast
  qed
qed

lemma TrimLeftSpace_decomp: "\<exists>l. whiteSpace l \<and> s = l @ TrimLeftSpace s"
proof -
  from trimLeftWith_decomp [of s unicodeSpaces] obtain us where
    "s = concat us @ TrimLeftSpace s"
    "list_all (\<lambda>u. (\<exists>c. u = [c] \<and> asciiSpace c) \<or> u \<in> set unicodeSpaces) us"
    unfolding TrimLeftSpace_def by blast
  then have "whiteSpace (concat us) \<and> s = concat us @ TrimLeftSpace s"
    unfolding whiteSpace_def spaceRune_def by blast
  then show ?thesis by blast
qed

lemma TrimRightSpace_decomp: "\<exists>r. whiteSpace r \<and> s = TrimRightSpace s @ r"
proof -
  from trimLeftWith_decomp [of "rev s" "map rev unicodeSpaces"] obtain us where
    a: "rev s = concat us @ trimLeftWith (map rev unicodeSpaces) (rev s)"
    and b: "list_all (\<lambda>u. (\<exists>c. u = [c] \<and> asciiSpace c) \<or> u \<in> set (map rev unicodeSpaces)) us"
    by blast
  from a have "rev (rev s) = rev (concat us @ trimLeftWith (map rev unicodeSpaces) (rev s))"
    by simp
  then have s: "s = TrimRightSpace s @ concat (map rev (rev us))"
    by (simp add: TrimRightSpace_def rev_concat)
  from b have "list_all spaceRune (map rev (rev us))"
    by (auto simp: list_all_iff spaceRune_def)
  then have "whiteSpace (concat (map rev (rev us)))" unfolding whiteSpace_def by blast
  with s show ?thesis by blast
qed

lemma TrimSpace_decomp: "\<exists>l r. whiteSpace l \<and> whiteSpace r \<and> s = l @ TrimSpace s @ r"
proof -
  obtain l where l: "whiteSpace l" "s = l @ TrimLeftSpace s"
    using TrimLeftSpace_decomp by blast
  obtain r where r: "whiteSpace r" "TrimLeftSpace s = TrimRightSpace (TrimLeftSpace s) @ r"
    using TrimRightSpace_decomp by blast
  from l(2) r(2) have "s = l @ TrimSpace s @ r" by (simp add: TrimSpace_def)
  with l(1) r(1) show ?thesis by blast
qed

lemma no_close_noPair:
  assumes o: "splitFirst s openTag = Some (pre, r)" and c: "splitFirst r closeTag = None"
  shows "noPair s"
  unfolding noPair_def
proof
  assume "\<exists>a b c. s = a @ openTag @ b @ closeTag @ c"
  then obtain a b c where abc: "s = a @ openTag @ b @ closeTag @ c" by blast
  from o have s: "s = pre @ openTag @ r" by (rule splitFirst_Some)
  from o abc have le: "length pre \<le> length a" by (rule splitFirst_leftmost)
  from s abc have "(pre @ openTag) @ r = (a @ openTag @ b) @ closeTag @ c" by simp
  moreover from le have "length (pre @ openTag) \<le> length (a @ openTag @ b)" by simp
  ultimately obtain z where "r = z @ closeTag @ c"
    by (metis append_eq_append_conv_if append_take_drop_id append.assoc)
  with c show False using splitFirst_None by blast
qed

lemma FindAll_decomp:
  "\<exists>segs rest. s = concat (map wrapped segs) @ rest \<and>
      FindAllStringSubmatch s = map (\<lambda>seg. (openTag @ snd seg @ closeTag, snd seg)) segs \<and>
      list_all nearest segs \<and> noPair rest"
proof (induction s rule: FindAllStringSubmatch.induct)
  case (1 s)
  show ?case
  proof (cases "splitFirst s openTag")
    case None
    then have "noPair s" unfolding noPair_def using splitFirst_None by blast
    moreover from None have "FindAllStringSubmatch s = []"
      by (simp add: FindAllStringSubmatch.simps)
    ultimately have "s = concat (map wrapped []) @ s \<and>
      FindAllStringSubmatch s = map (\<lambda>seg. (openTag @ snd seg @ closeTag, snd seg)) [] \<and>
      list_all nearest [] \<and> noPair s" by simp
    then show ?thesis by blast
  next
    case (Some x)
    then obtain pre r where o: "splitFirst s openTag = Some (pre, r)" by (cases x) simp
    show ?thesis
    proof (cases "splitFirst r closeTag")
      case None
      with o have "noPair s" by (rule no_close_noPair)
      moreover from o None have "FindAllStringSubmatch s = []"
        by (simp add: FindAllStringSubmatch.simps)
      ultimately have "s = concat (map wrapped []) @ s \<and>
        FindAllStringSubmatch s = map (\<lambda>seg. (openTag @ snd seg @ closeTag, snd seg)) [] \<and>
        list_all nearest [] \<and> noPair s" by simp
      then show ?thesis by blast
    next
      case (Some y)
      then obtain inner r' where c: "splitFirst r closeTag = Some (inner, r')" by (cases y) simp
      from "1.IH" [OF o refl c refl] obtain segs rest where
        ih: "r' = concat (map wrapped segs) @ rest"
          "FindAllStringSubmatch r' = map (\<lambda>seg. (openTag @ snd seg @ closeTag, snd seg)) segs"
          "list_all nearest segs" "noPair rest" by blast
      from o have s: "s = pre @ openTag @ r" by (rule splitFirst_Some)
      from c have r: "r = inner @ closeTag @ r'" by (rule splitFirst_Some)
      have n: "nearest (pre, inner)"
        unfolding nearest_def using splitFirst_unique [OF o] splitFirst_unique [OF c] by auto
      have "s = concat (map wrapped ((pre, inner) # segs)) @ rest"
        using s r ih(1) by (simp add: wrapped_def)
      moreover have "FindAllStringSubmatch s =
          map (\<lambda>seg. (openTag @ snd seg @ closeTag, snd seg)) ((pre, inner) # segs)"
        using o c ih(2) by (simp add: FindAllStringSubmatch.simps [of s])
      moreover have "list_all nearest ((pre, inner) # segs)" using n ih(3) by simp
      ultimately show ?thesis using ih(4) by blast
    qed
  qed
qed

text \<open>
  C5. For every text \<open>T\<close>, the extracted commands are, in left-to-right order, the
  inner texts of the non-overlapping tag pairs of \<open>T\<close> (the first opening tag, the first
  closing tag behind it, and so on behind that pair), each with its leading and
  trailing white space removed: \<open>T\<close> splits into segments and a rest without a pair,
  the commands are the trimmed inner texts of the segments in order, every inner text
  is its command between two runs of white space, and no command starts or ends with
  a white space rune.
\<close>

theorem extract_document_order:
  "\<exists>segs rest. T = concat (map wrapped segs) @ rest \<and>
      extractCommands T = map (\<lambda>seg. TrimSpace (snd seg)) segs \<and>
      list_all nearest segs \<and> noPair rest \<and>
      list_all (\<lambda>seg. \<exists>l r. whiteSpace l \<and> whiteSpace r \<and> snd seg = l @ TrimSpace (snd seg) @ r) segs \<and>
      list_all (\<lambda>c. \<not> leadingSpace c \<and> \<not> trailingSpace c) (extractCommands T)"
proof -
  obtain segs rest where d: "T = concat (map wrapped segs) @ rest"
      "FindAllStringSubmatch T = map (\<lambda>seg. (openTag @ snd seg @ closeTag, snd seg)) segs"
      "list_all nearest segs" "noPair rest"
    using FindAll_decomp by blast
  from d(2) have e: "extractCommands T = map (\<lambda>seg. TrimSpace (snd seg)) segs"
    by (simp add: extractCommands_def trimMatches_def comp_def)
  have f: "list_all (\<lambda>c. \<not> leadingSpace c \<and> \<not> trailingSpace c) (extractCommands T)"
    unfolding e by (simp add: list_all_iff TrimSpace_no_leading TrimSpace_no_trailing)
  have g: "list_all (\<lambda>seg. \<exists>l r. whiteSpace l \<and> whiteSpace r \<and> snd seg = l @ TrimSpace (snd seg) @ r) segs"
    unfolding list_all_iff using TrimSpace_decomp by blast
  from d(1,3,4) e f g show ?thesis by blast
qed

theorem extract_document_order_witness:
  "extractCommands ''run <command> ls -la </command> then <command>pwd</command> <command>x'' =
     [''ls -la'', ''pwd''] \<and>
   (\<exists>segs rest.
      ''run <command> ls -la </command> then <command>pwd</command> <command>x'' =
        concat (map wrapped segs) @ rest \<and>
      extractCommands ''run <command> ls -la </command> then <command>pwd</command> <command>x'' =
        map (\<lambda>seg. TrimSpace (snd seg)) segs \<and>
      list_all nearest segs \<and> noPair rest \<and>
      list_all (\<lambda>seg. \<exists>l r. whiteSpace l \<and> whiteSpace r \<and> snd seg = l @ TrimSpace (snd seg) @ r) segs \<and>
      list_all (\<lambda>c. \<not> leadingSpace c \<and> \<not> trailingSpace c)
        (extractCommands ''run <command> ls -la </command> then <command>pwd</command> <command>x''))"
proof -
  have "extractCommands ''run <command> ls -la </command> then <command>pwd</command> <command>x'' =
     [''ls -la'', ''pwd'']"
    by code_simp
  then show ?thesis
    using extract_document_order
      [of "''run <command> ls -la </command> then <command>pwd</command> <command>x''"]
    by (rule conjI)
qed

section \<open>What the helpers leave unchanged\<close>

lemma updateViewport_fields [simp]:
  "textInput (updateViewport env m) = textInput m"
  "err (updateViewport env m) = err m"
  "conversation (updateViewport env m) = conversation m"
  "mode (updateViewport env m) = mode m"
  "messages (updateViewport env m) = messages m"
  "cursorIndex (updateViewport env m) = cursorIndex m"
  "conversations (updateViewport env m) = conversations m"
  "selectedConv (updateViewport env m) = selectedConv m"
  "isLoading (updateViewport env m) = isLoading m"
  "commands (updateViewport env m) = commands m"
  "selectedCommand (updateViewport env m) = selectedCommand m"
  by (simp_all add: updateViewport_def Let_def)

lemma ensureMessageVisible_fields [simp]:
  "textInput (ensureMessageVisible env i m) = textInput m"
  "err (ensureMessageVisible env i m) = err m"
  "conversation (ensureMessageVisible env i m) = conversation m"
  "mode (ensureMessageVisible env i m) = mode m"
  "messages (ensureMessageVisible env i m) = messages m"
  "cursorIndex (ensureMessageVisible env i m) = cursorIndex m"
  "conversations (ensureMessageVisible env i m) = conversations m"
  "selectedConv (ensureMessageVisible env i m) = selectedConv m"
  "isLoading (ensureMessageVisible env i m) = isLoading m"
  "commands (ensureMessageVisible env i m) = commands m"
  "selectedCommand (ensureMessageVisible env i m) = selectedCommand m"
  by (simp_all add: ensureMessageVisible_def Let_def)

lemma ensureConversationVisible_fields [simp]:
  "textInput (ensureConversationVisible env i m) = textInput m"
  "err (ensureConversationVisible env i m) = err m"
  "conversation (ensureConversationVisible env i m) = conversation m"
  "mode (ensureConversationVisible env i m) = mode m"
  "messages (ensureConversationVisible env i m) = messages m"
  "cursorIndex (ensureConversationVisible env i m) = cursorIndex m"
  "conversations (ensureConversationVisible env i m) = conversations m"
  "selectedConv (ensureConversationVisible env i m) = selectedConv m"
  "isLoading (ensureConversationVisible env i m) = isLoading m"
  "commands (ensureConversationVisible env i m) = commands m"
  "selectedCommand (ensureConversationVisible env i m) = selectedCommand m"
  by (simp_all add: ensureConversationVisible_def Let_def)

lemma moveSelectedConv_fields [simp]:
  "textInput (moveSelectedConv env i m) = textInput m"
  "err (moveSelectedConv env i m) = err m"
  "conversation (moveSelectedConv env i m) = conversation m"
  "mode (moveSelectedConv env i m) = mode m"
  "messages (moveSelectedConv env i m) = messages m"
  "cursorIndex (moveSelectedConv env i m) = cursorIndex m"
  "conversations (moveSelectedConv env i m) = conversations m"
  "isLoading (moveSelectedConv env i m) = isLoading m"
  "commands (moveSelectedConv env i m) = commands m"
  "selectedCommand (moveSelectedConv env i m) = selectedCommand m"
  by (simp_all add: moveSelectedConv_def)

lemma saveCurrent_fields [simp]:
  "textInput (snd (saveCurrent env w m)) = textInput m"
  "viewport (snd (saveCurrent env w m)) = viewport m"
  "conversation (snd (saveCurrent env w m)) = conversation m"
  "mode (snd (saveCurrent env w m)) = mode m"
  "messages (snd (saveCurrent env w m)) = messages m"
  "cursorIndex (snd (saveCurrent env w m)) = cursorIndex m"
  "conversations (snd (saveCurrent env w m)) = conversations m"
  "selectedConv (snd (saveCurrent env w m)) = selectedConv m"
  "isLoading (snd (saveCurrent env w m)) = isLoading m"
  "height (snd (saveCurrent env w m)) = height m"
  "width (snd (saveCurrent env w m)) = width m"
  "commands (snd (saveCurrent env w m)) = commands m"
  "selectedCommand (snd (saveCurrent env w m)) = selectedCommand m"
  by (simp_all add: saveCurrent_def split: prod.splits option.splits)

lemma saveCurrent_world:
  "fst (saveCurrent env w m) = w\<lparr>disk := snd (SaveConversation env (disk w) (conversation m))\<rparr>"
  by (simp add: saveCurrent_def split: prod.splits option.splits)

lemma withSummary_Messages [simp]: "Messages (withSummary ms conv) = Messages conv"
  by (simp add: withSummary_def split: option.splits)

section \<open>Committing an edit\<close>

text \<open>
  C3. For every conversation and every index \<open>i\<close> from 1 to the index of the last
  message whose message is of the user, the commit of an edit with the text \<open>e\<close> at
  \<open>i\<close> leaves a conversation of exactly \<open>i + 1\<close> messages whose message \<open>i\<close> is a user
  message with the content \<open>e\<close>; the messages before \<open>i\<close> are kept, those behind \<open>i\<close>
  are gone, and the completion request that the step issues carries exactly these
  messages.
\<close>

theorem edit_commit_truncates:
  assumes "1 \<le> i" and "i \<le> int (length (messages m)) - 1"
    and "Role (messages m ! nat i) = ''user''"
  shows "\<exists>w' m'. Update env w m (editMessageMsg i e None) =
             Inr (w', m', CmdCreateMessage (toClaudeMsgs (messages m'))) \<and>
           int (length (messages m')) = i + 1 \<and>
           Content (messages m' ! nat i) = e \<and>
           Role (messages m' ! nat i) = ''user'' \<and>
           take (nat i) (messages m') = take (nat i) (messages m) \<and>
           Messages (conversation m') = messages m' \<and>
           isLoading m'"
proof -
  let ?old = "messages m ! nat i"
  let ?ms = "take (nat (i + 1)) ((messages m)[nat i := ?old\<lparr>Content := e\<rparr>])"
  from assms(1,2) have idx: "index (messages m) i = Inr ?old" by (simp add: index_def)
  from assms(1,2) have n: "nat i < length (messages m)" by linarith
  from assms(1) have s: "nat (i + 1) = Suc (nat i)" by linarith
  have len: "int (length ?ms) = i + 1" using n assms(1) by (simp add: s)
  have nth: "?ms ! nat i = ?old\<lparr>Content := e\<rparr>" using n by (simp add: s)
  have tk: "take (nat i) ?ms = take (nat i) (messages m)" using n by (simp add: s min_def)
  define m2 where "m2 =
        (updateViewport env (m\<lparr>messages := ?ms, conversation := (conversation m)\<lparr>Messages := ?ms\<rparr>\<rparr>))
           \<lparr>viewport := GotoBottom (viewport (updateViewport env (m\<lparr>messages := ?ms, conversation := (conversation m)\<lparr>Messages := ?ms\<rparr>\<rparr>))),
            conversation := withSummary ?ms ((conversation m)\<lparr>Messages := ?ms\<rparr>)\<rparr>"
  have m2: "messages m2 = ?ms" "Messages (conversation m2) = ?ms"
    by (simp_all add: m2_def)
  obtain w' m3 where sc: "saveCurrent env w m2 = (w', m3)"
    by (cases "saveCurrent env w m2") blast
  then have "m3 = snd (saveCurrent env w m2)" by simp
  with m2 have m3: "messages m3 = ?ms" "Messages (conversation m3) = ?ms"
    by simp_all
  have up: "Update env w m (editMessageMsg i e None) =
      Inr (w', m3\<lparr>mode := ModeNormal, isLoading := True\<rparr>, CmdCreateMessage (toClaudeMsgs ?ms))"
    by (simp add: Update_def updateEditMessage_def idx Let_def sc [unfolded m2_def])
  show ?thesis
    using up m3 len nth tk assms(3) by (intro exI [of _ w'] exI [of _ "m3\<lparr>mode := ModeNormal, isLoading := True\<rparr>"]) simp
qed

theorem edit_commit_truncates_witness:
  "\<exists>w' m'. Update plainEnv emptyWorld chat3 (editMessageMsg 1 ''bye'' None) =
             Inr (w', m', CmdCreateMessage (toClaudeMsgs (messages m'))) \<and>
           int (length (messages m')) = 1 + 1 \<and>
           Content (messages m' ! nat 1) = ''bye'' \<and>
           Role (messages m' ! nat 1) = ''user'' \<and>
           take (nat 1) (messages m') = take (nat 1) (messages chat3) \<and>
           Messages (conversation m') = messages m' \<and>
           isLoading m'"
  by (rule edit_commit_truncates) (simp_all add: chat3_def chat3Messages_def)

section \<open>Listing the stored conversations\<close>

lemma listLoop_map_filter:
  "listLoop env acc fs = acc @ List.map_filter (storedConversation env) fs"
proof (induction fs arbitrary: acc)
  case Nil
  then show ?case by (simp add: List.map_filter_simps)
next
  case (Cons f fs)
  obtain name content where f: "f = (name, content)" by (cases f)
  show ?case
    by (cases content)
      (auto simp: f Cons.IH storedConversation_def List.map_filter_simps split: option.splits)
qed

text \<open>
  C10. \<open>ListConversations\<close> returns an error exactly when the directory cannot be
  read. Otherwise it returns, in the order of the directory, the conversation of every
  entry that has the conversation extension, can be read and parses; an entry that
  cannot be read or does not parse is skipped without an error, and every entry with
  the extension that parses is in the result.
\<close>

theorem ListConversations_skips_bad_files:
  "((\<exists>e. ListConversations env d = Inl e) \<longleftrightarrow> dirErr d \<noteq> None) \<and>
   (dirErr d = None \<longrightarrow>
      ListConversations env d = Inr (List.map_filter (storedConversation env) (files d))) \<and>
   (\<forall>name bytes conv.
      dirErr d = None \<and> (name, Some bytes) \<in> set (files d) \<and> Ext name = ''.convo'' \<and>
      Unmarshal env bytes = Some conv \<longrightarrow>
      (\<exists>cs. ListConversations env d = Inr cs \<and> conv \<in> set cs))"
proof (intro conjI allI impI)
  show "(\<exists>e. ListConversations env d = Inl e) \<longleftrightarrow> dirErr d \<noteq> None"
    by (auto simp: ListConversations_def split: option.splits)
next
  assume "dirErr d = None"
  then show "ListConversations env d = Inr (List.map_filter (storedConversation env) (files d))"
    by (simp add: ListConversations_def listLoop_map_filter)
next
  fix name bytes conv
  assume a: "dirErr d = None \<and> (name, Some bytes) \<in> set (files d) \<and> Ext name = ''.convo'' \<and>
      Unmarshal env bytes = Some conv"
  then have "storedConversation env (name, Some bytes) = Some conv"
    by (simp add: storedConversation_def)
  with a have "conv \<in> set (List.map_filter (storedConversation env) (files d))"
    by (force simp: List.map_filter_def)
  with a show "\<exists>cs. ListConversations env d = Inr cs \<and> conv \<in> set cs"
    by (simp add: ListConversations_def listLoop_map_filter)
qed

theorem ListConversations_skips_bad_files_witness:
  "dirErr someDisk = None \<and>
   ListConversations jsonEnv someDisk = Inr [newConversation emptyWorld, newConversation emptyWorld, newConversation emptyWorld] \<and>
   ListConversations jsonEnv (someDisk\<lparr>dirErr := Some ''denied''\<rparr>) = Inl ''error reading directory: denied''"
proof -
  have d: "dirErr someDisk = None" by (simp add: someDisk_def)
  have "List.map_filter (storedConversation jsonEnv) (files someDisk) =
      [newConversation emptyWorld, newConversation emptyWorld, newConversation emptyWorld]"
    by (simp add: someDisk_def jsonEnv_def plainEnv_def storedConversation_def
        List.map_filter_simps Ext_def)
  with d ListConversations_skips_bad_files [of jsonEnv someDisk]
  have "ListConversations jsonEnv someDisk = Inr [newConversation emptyWorld, newConversation emptyWorld, newConversation emptyWorld]"
    by simp
  moreover have "ListConversations jsonEnv (someDisk\<lparr>dirErr := Some ''denied''\<rparr>) =
      Inl ''error reading directory: denied''"
    by (simp add: ListConversations_def)
  ultimately show ?thesis using d by simp
qed


section \<open>The reply of a completion request\<close>

lemma putFile_mem: "(name, Some bytes) \<in> set (putFile name bytes fs)"
  by (induction fs) auto

lemma SaveConversation_written:
  "MarshalIndent env conv = Inr bytes \<Longrightarrow> writeErr d = None \<Longrightarrow>
   (conversationFile env conv, Some bytes) \<in> set (files (snd (SaveConversation env d conv)))"
  by (simp add: SaveConversation_def putFile_mem)

lemma withSummary_identity [simp]:
  "ID (withSummary ms conv) = ID conv" "CreatedAt (withSummary ms conv) = CreatedAt conv"
  by (simp_all add: withSummary_def split: option.splits)

text \<open>
  C8. For every result of a completion request: on success the step appends an
  assistant message with the text of the response, keeps the conversation in step
  with the messages, and saves that same conversation (the storage afterwards is the
  one \<open>SaveConversation\<close> leaves, and it holds the file of the conversation when the
  write succeeds); on failure the step only clears \<open>isLoading\<close> and stores the error
  in \<open>err\<close>: the messages, the conversation and the storage are as before.
\<close>

theorem completion_result_handling:
  "(\<exists>w' m'. Update env w m (apiResponseMsg r None) = Inr (w', m', CmdBatch) \<and>
       messages m' = messages m @ [\<lparr>Role = ''assistant'', Content = r, Timestamp = now w\<rparr>] \<and>
       Messages (conversation m') = messages m' \<and>
       ID (conversation m') = ID (conversation m) \<and>
       CreatedAt (conversation m') = CreatedAt (conversation m) \<and>
       \<not> isLoading m' \<and>
       disk w' = snd (SaveConversation env (disk w) (conversation m')) \<and>
       (\<forall>bytes. MarshalIndent env (conversation m') = Inr bytes \<and> writeErr (disk w) = None \<longrightarrow>
          (conversationFile env (conversation m'), Some bytes) \<in> set (files (disk w')))) \<and>
   Update env w m (apiResponseMsg r (Some e)) = Inr (w, m\<lparr>isLoading := False, err := Some e\<rparr>, CmdNil)"
proof (rule conjI)
  let ?ms = "messages m @ [\<lparr>Role = ''assistant'', Content = r, Timestamp = now w\<rparr>]"
  define conv2 where "conv2 =
      (if Summary ((conversation m)\<lparr>Messages := ?ms\<rparr>) = []
       then withSummary ?ms ((conversation m)\<lparr>Messages := ?ms\<rparr>)
       else (conversation m)\<lparr>Messages := ?ms\<rparr>)"
  define m0 where "m0 = m\<lparr>isLoading := False, messages := ?ms, conversation := conv2\<rparr>"
  have c2: "Messages conv2 = ?ms" "ID conv2 = ID (conversation m)"
    "CreatedAt conv2 = CreatedAt (conversation m)" by (simp_all add: conv2_def)
  obtain w' m1 where sc: "saveCurrent env w m0 = (w', m1)"
    by (cases "saveCurrent env w m0") blast
  then have m1: "m1 = snd (saveCurrent env w m0)" and w': "w' = fst (saveCurrent env w m0)"
    by simp_all
  define m' where "m' = (updateViewport env m1)\<lparr>viewport := GotoBottom (viewport (updateViewport env m1))\<rparr>"
  have up: "Update env w m (apiResponseMsg r None) = Inr (w', m', CmdBatch)"
    using sc by (simp add: Update_def updateApiResponse_def Let_def m0_def conv2_def m'_def)
  have f: "messages m' = ?ms" "conversation m' = conv2" "\<not> isLoading m'"
    by (simp_all add: m'_def m1 m0_def)
  have d: "disk w' = snd (SaveConversation env (disk w) (conversation m'))"
    by (simp add: w' saveCurrent_world f(2)) (simp add: m0_def)
  have "\<forall>bytes. MarshalIndent env (conversation m') = Inr bytes \<and> writeErr (disk w) = None \<longrightarrow>
          (conversationFile env (conversation m'), Some bytes) \<in> set (files (disk w'))"
    unfolding d using SaveConversation_written by blast
  with up f c2 d
  show "\<exists>w' m'. Update env w m (apiResponseMsg r None) = Inr (w', m', CmdBatch) \<and>
       messages m' = ?ms \<and>
       Messages (conversation m') = messages m' \<and>
       ID (conversation m') = ID (conversation m) \<and>
       CreatedAt (conversation m') = CreatedAt (conversation m) \<and>
       \<not> isLoading m' \<and>
       disk w' = snd (SaveConversation env (disk w) (conversation m')) \<and>
       (\<forall>bytes. MarshalIndent env (conversation m') = Inr bytes \<and> writeErr (disk w) = None \<longrightarrow>
          (conversationFile env (conversation m'), Some bytes) \<in> set (files (disk w')))"
    by (intro exI [of _ w'] exI [of _ m']) simp
next
  show "Update env w m (apiResponseMsg r (Some e)) = Inr (w, m\<lparr>isLoading := False, err := Some e\<rparr>, CmdNil)"
    by (simp add: Update_def updateApiResponse_def)
qed

theorem completion_result_handling_witness:
  "(\<exists>w' m'. Update plainEnv emptyWorld chat2 (apiResponseMsg ''hello'' None) = Inr (w', m', CmdBatch) \<and>
       map Content (messages m') = [systemPrompt, ''hi'', ''hello''] \<and>
       (''t_id.convo'', Some ''id'') \<in> set (files (disk w'))) \<and>
   Update plainEnv emptyWorld chat2 (apiResponseMsg ''hello'' (Some ''timeout'')) =
     Inr (emptyWorld, chat2\<lparr>isLoading := False, err := Some ''timeout''\<rparr>, CmdNil)"
proof -
  from completion_result_handling [of plainEnv emptyWorld chat2 "''hello''" "''timeout''"]
  obtain w' m' where
    a: "Update plainEnv emptyWorld chat2 (apiResponseMsg ''hello'' None) = Inr (w', m', CmdBatch)"
    and b: "messages m' = messages chat2 @ [\<lparr>Role = ''assistant'', Content = ''hello'', Timestamp = now emptyWorld\<rparr>]"
    and c: "ID (conversation m') = ID (conversation chat2)"
      "CreatedAt (conversation m') = CreatedAt (conversation chat2)"
    and d: "\<forall>bytes. MarshalIndent plainEnv (conversation m') = Inr bytes \<and> writeErr (disk emptyWorld) = None \<longrightarrow>
          (conversationFile plainEnv (conversation m'), Some bytes) \<in> set (files (disk w'))"
    and e: "Update plainEnv emptyWorld chat2 (apiResponseMsg ''hello'' (Some ''timeout'')) =
     Inr (emptyWorld, chat2\<lparr>isLoading := False, err := Some ''timeout''\<rparr>, CmdNil)"
    by blast
  from c have id: "ID (conversation m') = ''id''"
    by (simp add: chat2_def newConversation_def emptyWorld_def)
  from b have mc: "map Content (messages m') = [systemPrompt, ''hi'', ''hello'']"
    by (simp add: chat2_def systemMsg_def)
  from d id have fl: "(''t_id.convo'', Some ''id'') \<in> set (files (disk w'))"
    by (simp add: plainEnv_def emptyWorld_def conversationFile_def)
  have "\<exists>w' m'. Update plainEnv emptyWorld chat2 (apiResponseMsg ''hello'' None) = Inr (w', m', CmdBatch) \<and>
       map Content (messages m') = [systemPrompt, ''hi'', ''hello''] \<and>
       (''t_id.convo'', Some ''id'') \<in> set (files (disk w'))"
  proof (intro exI conjI)
    show "Update plainEnv emptyWorld chat2 (apiResponseMsg ''hello'' None) = Inr (w', m', CmdBatch)"
      by (rule a)
    show "map Content (messages m') = [systemPrompt, ''hi'', ''hello'']" by (rule mc)
    show "(''t_id.convo'', Some ''id'') \<in> set (files (disk w'))" by (rule fl)
  qed
  then show ?thesis using e by (rule conjI)
qed

section \<open>The output of an executed command\<close>

text \<open>
  When the command has succeeded, its output is appended as an assistant message, a
  fenced block with the invocation line, the status line and the whole output, and
  the conversation is saved.
\<close>

lemma successful_command_output_appended:
  "\<exists>w' m'. Update env w m (executeCommand c out None) = Inr (w', m', CmdNil) \<and>
     messages m' = messages m @
       [\<lparr>Role = ''assistant'',
         Content = fence @ ''\<newline>'' @ (''Command ran: '' @ c @ ''\<newline>Command result:\<newline>'' @
                   ''Command executed successfully\<newline>'' @ out) @ fence,
         Timestamp = now w\<rparr>] \<and>
     disk w' = snd (SaveConversation env (disk w) (conversation m'))"
proof -
  let ?ms = "messages m @
       [\<lparr>Role = ''assistant'',
         Content = fence @ ''\<newline>'' @ (''Command ran: '' @ c @ ''\<newline>Command result:\<newline>'' @
                   ''Command executed successfully\<newline>'' @ out) @ fence,
         Timestamp = now w\<rparr>]"
  define m0 where "m0 = m\<lparr>messages := ?ms, conversation := (conversation m)\<lparr>Messages := ?ms\<rparr>\<rparr>"
  obtain w' m1 where sc: "saveCurrent env w m0 = (w', m1)"
    by (cases "saveCurrent env w m0") blast
  then have m1: "m1 = snd (saveCurrent env w m0)" and w': "w' = fst (saveCurrent env w m0)"
    by simp_all
  define m' where "m' = (updateViewport env m1)\<lparr>viewport := GotoBottom (viewport (updateViewport env m1))\<rparr>"
  have "Update env w m (executeCommand c out None) = Inr (w', m', CmdNil)"
    using sc by (simp add: Update_def executeCommand_def updateCommandOutput_def Let_def m0_def m'_def)
  moreover have "messages m' = ?ms" by (simp add: m'_def m1 m0_def)
  moreover have "disk w' = snd (SaveConversation env (disk w) (conversation m'))"
    by (simp add: w' saveCurrent_world m'_def m1)
  ultimately show ?thesis by blast
qed

text \<open>
  C6, where the command fails. \<open>executeCommand\<close> builds the same text with the line
  "Command failed", but hands the error on with it, and \<open>Update\<close> returns on the
  error before it appends anything: for the command \<open>false\<close> the messages and the
  storage stay as they were, and only \<open>err\<close> is set.
\<close>

theorem failed_command_output_dropped:
  "Update plainEnv emptyWorld chat3 (executeCommand ''false'' [] (Some ''exit status 1'')) =
     Inr (emptyWorld, chat3\<lparr>err := Some ''exit status 1''\<rparr>, CmdNil)"
  by (simp add: Update_def executeCommand_def updateCommandOutput_def)

section \<open>The temporary file of the editor\<close>

text \<open>
  When the file could be created and written, it is removed whatever the editor and
  the read-back do.
\<close>

lemma editMessageCmd_removes:
  "createTemp r = Inr name \<Longrightarrow> writeString r = None \<Longrightarrow>
   fst (editMessageCmd r fs content idx) name = None"
  by (simp add: editMessageCmd_def Let_def split: prod.splits option.splits)

text \<open>
  C7, where the write to the temporary file fails. \<open>editMessageCmd\<close> returns on the
  error of \<open>WriteString\<close> before the editor is started, and with it before the
  callback that removes the file: the file that \<open>os.CreateTemp\<close> has created is still
  there afterwards.
\<close>

theorem write_failure_leaves_temp_file:
  "fst (editMessageCmd fullDisk Map.empty ''hi'' 1) ''/tmp/gpt-term-edit-1.txt'' = Some [] \<and>
   snd (editMessageCmd fullDisk Map.empty ''hi'' 1) =
     editMessageMsg 1 [] (Some ''no space left on device'')"
  by (simp add: editMessageCmd_def fullDisk_def)

section \<open>The offset of the viewport\<close>

text \<open>
  The scroll operations of the viewport keep its height; in a viewport whose height is
  not 0 they leave the offset within \<open>[0, max(0, totalLines - viewportHeight)]\<close>, and
  in every viewport they keep an offset that is not negative.
\<close>

lemma Height_ops [simp]:
  "Height (SetContent s vp) = Height vp" "Height (scrollBy d vp) = Height vp"
  "Height (GotoTop vp) = Height vp" "Height (GotoBottom vp) = Height vp"
  "Height (LineUp n vp) = Height vp" "Height (LineDown n vp) = Height vp"
  "Height (HalfViewUp vp) = Height vp" "Height (HalfViewDown vp) = Height vp"
  by (simp_all add: SetContent_def scrollBy_def GotoTop_def GotoBottom_def LineUp_def
      LineDown_def HalfViewUp_def HalfViewDown_def)

lemma Height_funpow [simp]: "Height (((LineDown 1) ^^ n) vp) = Height vp"
  by (induction n) simp_all

lemma scrollBy_range: "Height vp \<noteq> 0 \<Longrightarrow> offsetInRange 0 (scrollBy d vp)"
  by (simp add: offsetInRange_def scrollBy_def maxYOffset_def TotalLineCount_def)

lemma scrollBy_nonneg: "0 \<le> YOffset vp \<Longrightarrow> 0 \<le> YOffset (scrollBy d vp)"
  by (simp add: scrollBy_def)

lemma ops_range [simp]:
  "Height vp \<noteq> 0 \<Longrightarrow> offsetInRange 0 (LineUp n vp)"
  "Height vp \<noteq> 0 \<Longrightarrow> offsetInRange 0 (LineDown n vp)"
  "Height vp \<noteq> 0 \<Longrightarrow> offsetInRange 0 (HalfViewUp vp)"
  "Height vp \<noteq> 0 \<Longrightarrow> offsetInRange 0 (HalfViewDown vp)"
  "Height vp \<noteq> 0 \<Longrightarrow> offsetInRange 0 (GotoTop vp)"
  "Height vp \<noteq> 0 \<Longrightarrow> offsetInRange 0 (GotoBottom vp)"
  by (simp_all add: LineUp_def LineDown_def HalfViewUp_def HalfViewDown_def scrollBy_range)
    (simp_all add: offsetInRange_def GotoTop_def GotoBottom_def maxYOffset_def TotalLineCount_def)

lemma ops_nonneg:
  "0 \<le> YOffset vp \<Longrightarrow> 0 \<le> YOffset (LineUp n vp)"
  "0 \<le> YOffset vp \<Longrightarrow> 0 \<le> YOffset (LineDown n vp)"
  "0 \<le> YOffset vp \<Longrightarrow> 0 \<le> YOffset (HalfViewUp vp)"
  "0 \<le> YOffset vp \<Longrightarrow> 0 \<le> YOffset (HalfViewDown vp)"
  "0 \<le> YOffset vp \<Longrightarrow> 0 \<le> YOffset (GotoTop vp)"
  "0 \<le> YOffset vp \<Longrightarrow> 0 \<le> YOffset (GotoBottom vp)"
  by (simp_all add: LineUp_def LineDown_def HalfViewUp_def HalfViewDown_def scrollBy_nonneg)
    (simp_all add: GotoTop_def GotoBottom_def maxYOffset_def)

lemma offsetInRange_mono: "offsetInRange 0 vp \<Longrightarrow> offsetInRange 1 vp"
  by (auto simp: offsetInRange_def)

lemma offsetValid_ops [simp]:
  "offsetValid vp \<Longrightarrow> offsetValid (LineUp n vp)"
  "offsetValid vp \<Longrightarrow> offsetValid (LineDown n vp)"
  "offsetValid vp \<Longrightarrow> offsetValid (HalfViewUp vp)"
  "offsetValid vp \<Longrightarrow> offsetValid (HalfViewDown vp)"
  "offsetValid vp \<Longrightarrow> offsetValid (GotoTop vp)"
  "offsetValid vp \<Longrightarrow> offsetValid (GotoBottom vp)"
  by (simp_all add: offsetValid_def ops_nonneg offsetInRange_mono)

lemma LineDown_funpow_range:
  "Height vp \<noteq> 0 \<Longrightarrow> offsetInRange 0 vp \<Longrightarrow> offsetInRange 0 (((LineDown 1) ^^ n) vp)"
  by (induction n) simp_all

lemma LineDown_funpow_nonneg: "0 \<le> YOffset vp \<Longrightarrow> 0 \<le> YOffset (((LineDown 1) ^^ n) vp)"
  by (induction n) (simp_all add: ops_nonneg)

lemma updateViewport_Height [simp]: "Height (viewport (updateViewport env m)) = height m - 7"
  by (simp add: updateViewport_def Let_def)

lemma updateViewport_nonneg:
  "0 \<le> YOffset (viewport m) \<Longrightarrow> 0 \<le> YOffset (viewport (updateViewport env m))"
  by (auto simp: updateViewport_def Let_def GotoTop_def SetContent_def)

lemma updateViewport_range [simp]:
  "0 \<le> YOffset (viewport m) \<Longrightarrow> height m - 7 \<noteq> 0 \<Longrightarrow>
   offsetInRange 0 (viewport (updateViewport env m))"
  by (auto simp: updateViewport_def Let_def offsetInRange_def GotoTop_def SetContent_def
      TotalLineCount_def)

lemma updateViewport_valid [simp]:
  "offsetValid (viewport m) \<Longrightarrow> offsetValid (viewport (updateViewport env m))"
  by (simp add: offsetValid_def updateViewport_nonneg offsetInRange_mono)

lemma ensureMessageVisible_Height [simp]:
  "Height (viewport (ensureMessageVisible env i m)) = Height (viewport m)"
  by (simp add: ensureMessageVisible_def Let_def)

lemma ensureMessageVisible_range [simp]:
  "Height (viewport m) \<noteq> 0 \<Longrightarrow> offsetInRange 0 (viewport (ensureMessageVisible env i m))"
  by (simp add: ensureMessageVisible_def Let_def LineDown_funpow_range)

lemma ensureMessageVisible_nonneg:
  "0 \<le> YOffset (viewport m) \<Longrightarrow> 0 \<le> YOffset (viewport (ensureMessageVisible env i m))"
  by (simp add: ensureMessageVisible_def Let_def LineDown_funpow_nonneg ops_nonneg SetContent_def)

lemma ensureMessageVisible_valid [simp]:
  "offsetValid (viewport m) \<Longrightarrow> offsetValid (viewport (ensureMessageVisible env i m))"
  by (simp add: offsetValid_def ensureMessageVisible_nonneg offsetInRange_mono)

lemma ensureConversationVisible_Height [simp]:
  "Height (viewport (ensureConversationVisible env i m)) = Height (viewport m)"
  by (simp add: ensureConversationVisible_def Let_def)

lemma ensureConversationVisible_range [simp]:
  "offsetInRange 1 (viewport (ensureConversationVisible env i m))"
  by (auto simp: ensureConversationVisible_def Let_def offsetInRange_def SetContent_def
      TotalLineCount_def)

lemma ensureConversationVisible_valid [simp]:
  "offsetValid (viewport (ensureConversationVisible env i m))"
  using ensureConversationVisible_range [of env i m]
  by (simp add: offsetValid_def offsetInRange_def)

lemma moveSelectedConv_valid [simp]:
  "offsetValid (viewport m) \<Longrightarrow> offsetValid (viewport (moveSelectedConv env i m))"
  by (simp add: moveSelectedConv_def)



















lemma run_reachable:
  "run env w m msgs = Inr (w', m', cs) \<Longrightarrow> reachableBy allowed env m \<Longrightarrow>
   list_all allowed msgs \<Longrightarrow> reachableBy allowed env m'"
proof (induction msgs arbitrary: w m cs)
  case Nil
  then show ?case by simp
next
  case (Cons msg msgs)
  from Cons.prems(1) obtain w1 m1 c1 cs1 where
    u: "Update env w m msg = Inr (w1, m1, c1)" and r: "run env w1 m1 msgs = Inr (w', m', cs1)"
    by (auto split: sum.splits prod.splits)
  from Cons.prems(2,3) u have "reachableBy allowed env m1"
    by (auto intro: reachableBy.step)
  with r Cons.prems(3) show ?case by (auto intro: Cons.IH)
qed




text \<open>
  The restriction to a viewport whose height is not 0 is needed. In a terminal of 8
  lines a reply of 16 lines leaves the offset at 21; the terminal then shrinks to 7
  lines, which makes the height of the viewport 0, and ctrl+h shows the help text of
  12 lines: \<open>GotoTop\<close> is a no-op, and the offset stays at 21.
\<close>

lemma updateViewport_size [simp]:
  "height (updateViewport env m) = height m" "width (updateViewport env m) = width m"
  by (simp_all add: updateViewport_def Let_def)

lemma resize_keeps_offset:
  assumes "mode m \<noteq> ModeHelp" and "0 \<le> YOffset (viewport m)"
    and "YOffset (viewport m) \<le> int (length (SplitLines (modeContent env (m\<lparr>height := 7, width := wd, ready := True, textInput := ti\<rparr>))))"
  shows "YOffset (viewport (updateViewport env (m\<lparr>height := 7, width := wd, ready := True, textInput := ti\<rparr>))) = YOffset (viewport m)"
  using assms by (simp add: updateViewport_def Let_def SetContent_def TotalLineCount_def)

lemma help_keeps_offset_at_height_zero:
  assumes "height m = 7"
  shows "Update env w m (key KeyCtrlH) = Inr (w, updateViewport env (m\<lparr>mode := ModeHelp\<rparr>), CmdNil)"
    and "Height (viewport (updateViewport env (m\<lparr>mode := ModeHelp\<rparr>))) = 0"
    and "YOffset (viewport (updateViewport env (m\<lparr>mode := ModeHelp\<rparr>))) = YOffset (viewport m)"
    and "TotalLineCount (viewport (updateViewport env (m\<lparr>mode := ModeHelp\<rparr>))) = 12"
proof -
  show "Update env w m (key KeyCtrlH) = Inr (w, updateViewport env (m\<lparr>mode := ModeHelp\<rparr>), CmdNil)"
    by (simp add: Update_def updateKey_def key_def keyString_def)
  show "Height (viewport (updateViewport env (m\<lparr>mode := ModeHelp\<rparr>))) = 0"
    using assms by simp
  show "YOffset (viewport (updateViewport env (m\<lparr>mode := ModeHelp\<rparr>))) = YOffset (viewport m)"
    using assms by (simp add: updateViewport_def Let_def GotoTop_def SetContent_def)
  have "length (SplitLines helpMessage) = 12" by code_simp
  then show "TotalLineCount (viewport (updateViewport env (m\<lparr>mode := ModeHelp\<rparr>))) = 12"
    using assms
    by (simp add: updateViewport_def Let_def GotoTop_def SetContent_def TotalLineCount_def
        modeContent_def)
qed

lemma stale_offset_at_height_zero:
  "\<exists>m. reachableBy (\<lambda>msg. \<not> isScrollMsg msg) plainEnv m \<and> mode m = ModeHelp \<and>
     Height (viewport m) = 0 \<and> TotalLineCount (viewport m) = 12 \<and>
     YOffset (viewport m) = 21 \<and> \<not> offsetInRange 1 (viewport m)"
proof -
  have "case run plainEnv emptyWorld (initialModel emptyWorld) longReplyKeys of
      Inl p \<Rightarrow> False
    | Inr (w, m, cs) \<Rightarrow>
        mode m = ModeNormal \<and> YOffset (viewport m) = 21 \<and>
        length (SplitLines (modeContent plainEnv
          (m\<lparr>height := 7, width := 80, ready := True,
             textInput := (textInput m)\<lparr>tiWidth := 80 - 4\<rparr>\<rparr>))) = 22"
    by code_simp
  then obtain w4 m4 cs where
    r: "run plainEnv emptyWorld (initialModel emptyWorld) longReplyKeys = Inr (w4, m4, cs)"
    and n: "mode m4 = ModeNormal" and y: "YOffset (viewport m4) = 21"
    and l: "length (SplitLines (modeContent plainEnv
          (m4\<lparr>height := 7, width := 80, ready := True,
              textInput := (textInput m4)\<lparr>tiWidth := 80 - 4\<rparr>\<rparr>))) = 22"
    by (auto split: sum.splits)
  have "reachableBy (\<lambda>msg. \<not> isScrollMsg msg) plainEnv (initialModel emptyWorld)"
    by (rule reachableBy.start)
  with r have r4: "reachableBy (\<lambda>msg. \<not> isScrollMsg msg) plainEnv m4"
    by (rule run_reachable)
      (simp add: longReplyKeys_def key_def typed_def isScrollMsg_def)
  define m5 where "m5 = updateViewport plainEnv
      (m4\<lparr>height := 7, width := 80, ready := True,
          textInput := (textInput m4)\<lparr>tiWidth := 80 - 4\<rparr>\<rparr>)"
  have u5: "Update plainEnv w4 m4 (WindowSizeMsg 80 7) = Inr (w4, m5, CmdNil)"
    by (simp add: Update_def m5_def)
  have s5: "\<not> isScrollMsg (WindowSizeMsg 80 7)" by (simp add: isScrollMsg_def)
  from r4 s5 u5 have r5: "reachableBy (\<lambda>msg. \<not> isScrollMsg msg) plainEnv m5"
    by (rule reachableBy.step)
  have h5: "height m5 = 7" by (simp add: m5_def)
  from n y l have y5: "YOffset (viewport m5) = 21"
    unfolding m5_def by (subst resize_keeps_offset) simp_all
  define m6 where "m6 = updateViewport plainEnv (m5\<lparr>mode := ModeHelp\<rparr>)"
  from help_keeps_offset_at_height_zero [OF h5]
  have u6: "Update plainEnv w4 m5 (key KeyCtrlH) = Inr (w4, m6, CmdNil)"
    and h6: "Height (viewport m6) = 0" and y6: "YOffset (viewport m6) = YOffset (viewport m5)"
    and t6: "TotalLineCount (viewport m6) = 12"
    unfolding m6_def by simp_all
  have s6: "\<not> isScrollMsg (key KeyCtrlH)" by (simp add: key_def isScrollMsg_def)
  from r5 s6 u6 have r6: "reachableBy (\<lambda>msg. \<not> isScrollMsg msg) plainEnv m6"
    by (rule reachableBy.step)
  have md: "mode m6 = ModeHelp" by (simp add: m6_def)
  from y5 y6 have y: "YOffset (viewport m6) = 21" by simp
  from y t6 h6 have nr: "\<not> offsetInRange 1 (viewport m6)" by (simp add: offsetInRange_def)
  show ?thesis
    by (rule exI [of _ m6]) (intro conjI r6 md h6 t6 y nr)
qed

section \<open>Completion requests and the loading flag\<close>

lemma handleCommandExecution_cmd: "handleCommandExecution m = Inr (m', c) \<Longrightarrow> c = CmdNil"
  by (auto simp: handleCommandExecution_def Let_def split: sum.splits if_splits)

lemma handleCommandExecution_isLoading:
  "handleCommandExecution m = Inr (m', c) \<Longrightarrow> isLoading m' = isLoading m"
  by (auto simp: handleCommandExecution_def Let_def split: sum.splits if_splits)

lemma updateMouse_no_request: "updateMouse env w m t = Inr (w', m', c) \<Longrightarrow> \<not> isRequest c"
  by (auto simp: updateMouse_def isRequest_def split: MouseEventType.splits if_splits)

lemma updateNormal_request:
  "updateNormal env w m k = Inr (w', m', CmdCreateMessage ms) \<Longrightarrow>
   Type k = KeyEnter \<and> tiValue (textInput m) \<noteq> [] \<and> isLoading m' \<and>
   ms = toClaudeMsgs (messages m')"
  by (auto simp: updateNormal_def Let_def sendMessage_def finishNormal_def
      split: if_splits KeyType.splits sum.splits)

lemma updateEditing_no_request: "updateEditing env w m k = Inr (w', m', c) \<Longrightarrow> \<not> isRequest c"
  by (auto simp: updateEditing_def Let_def inWorld_def isRequest_def
      dest: handleCommandExecution_cmd
      split: if_splits KeyType.splits sum.splits)

lemma updateHistory_no_request: "updateHistory env w m k = Inr (w', m', c) \<Longrightarrow> \<not> isRequest c"
  by (auto simp: updateHistory_def Let_def isRequest_def
      split: if_splits KeyType.splits sum.splits)

lemma updateCommandSelect_no_request:
  "updateCommandSelect env w m k = Inr (w', m', c) \<Longrightarrow> \<not> isRequest c"
  by (auto simp: updateCommandSelect_def Let_def isRequest_def
      split: if_splits KeyType.splits sum.splits option.splits)

lemma updateKey_request:
  "updateKey env w m k = Inr (w', m', CmdCreateMessage ms) \<Longrightarrow>
   mode m = ModeNormal \<and> Type k = KeyEnter \<and> tiValue (textInput m) \<noteq> [] \<and> isLoading m' \<and>
   ms = toClaudeMsgs (messages m')"
  by (auto simp: updateKey_def Let_def inWorld_def loadNext_def newChat_def isRequest_def
      dest: handleCommandExecution_cmd updateNormal_request updateEditing_no_request
        updateHistory_no_request updateCommandSelect_no_request
      split: if_splits Mode.splits sum.splits)

lemma Update_request:
  "Update env w m msg = Inr (w', m', CmdCreateMessage ms) \<Longrightarrow>
   isLoading m' \<and> ms = toClaudeMsgs (messages m') \<and>
   ((\<exists>k. msg = KeyMsg k \<and> Type k = KeyEnter \<and> mode m = ModeNormal \<and>
         tiValue (textInput m) \<noteq> []) \<or>
    (\<exists>i e. msg = editMessageMsg i e None))"
  by (auto simp: Update_def updateApiResponse_def updateEditMessage_def
      updateCommandOutput_def Let_def case_prod_beta isRequest_def
      dest: updateMouse_no_request updateKey_request
      split: Msg.splits option.splits sum.splits)

lemma keyString_Enter:
  "Type k = KeyEnter \<Longrightarrow> keyString k = ''enter'' \<or> keyString k = ''alt+enter''"
  by (simp add: keyString_def)

lemma Enter_sends:
  "Type k = KeyEnter \<Longrightarrow> mode m = ModeNormal \<Longrightarrow> tiValue (textInput m) \<noteq> [] \<Longrightarrow>
   Update env w m (KeyMsg k) = sendMessage env w m"
  using keyString_Enter [of k]
  by (auto simp: Update_def updateKey_def updateNormal_def Let_def)

lemma sendMessage_request:
  "\<exists>w' m' ms. sendMessage env w m = Inr (w', m', CmdCreateMessage ms)"
  by (simp add: sendMessage_def Let_def)

lemma updateMouse_isLoading:
  "updateMouse env w m t = Inr (w', m', c) \<Longrightarrow> isLoading m' = isLoading m"
  by (auto simp: updateMouse_def split: MouseEventType.splits if_splits)

lemma updateNormal_isLoading:
  "updateNormal env w m k = Inr (w', m', c) \<Longrightarrow> isLoading m \<Longrightarrow> isLoading m'"
  by (auto simp: updateNormal_def Let_def sendMessage_def finishNormal_def enterEditing_def
      split: if_splits KeyType.splits sum.splits)

lemma updateEditing_isLoading:
  "updateEditing env w m k = Inr (w', m', c) \<Longrightarrow> isLoading m' = isLoading m"
  by (auto simp: updateEditing_def Let_def inWorld_def
      dest: handleCommandExecution_isLoading
      split: if_splits KeyType.splits sum.splits)

lemma updateHistory_isLoading:
  "updateHistory env w m k = Inr (w', m', c) \<Longrightarrow> isLoading m' = isLoading m"
  by (auto simp: updateHistory_def Let_def
      split: if_splits KeyType.splits sum.splits)

lemma updateCommandSelect_isLoading:
  "updateCommandSelect env w m k = Inr (w', m', c) \<Longrightarrow> isLoading m' = isLoading m"
  by (auto simp: updateCommandSelect_def Let_def
      split: if_splits KeyType.splits sum.splits option.splits)

lemma updateKey_isLoading:
  "updateKey env w m k = Inr (w', m', c) \<Longrightarrow> isLoading m \<Longrightarrow> isLoading m'"
  by (auto simp: updateKey_def Let_def inWorld_def enterEditing_def loadNext_def newChat_def
      dest: handleCommandExecution_isLoading updateNormal_isLoading updateEditing_isLoading
        updateHistory_isLoading updateCommandSelect_isLoading
      split: if_splits Mode.splits sum.splits)

lemma Update_isLoading:
  "Update env w m msg = Inr (w', m', c) \<Longrightarrow> isLoading m \<Longrightarrow> \<not> isLoading m' \<Longrightarrow>
   \<exists>r e. msg = apiResponseMsg r e"
  by (auto simp: Update_def updateEditMessage_def updateCommandOutput_def Let_def case_prod_beta
      dest: updateMouse_isLoading updateKey_isLoading
      split: Msg.splits option.splits sum.splits)

text \<open>The commit of an edit of an existing message issues a completion request.\<close>

lemma edit_commit_sends:
  "0 \<le> i \<Longrightarrow> i < int (length (messages m)) \<Longrightarrow>
   \<exists>w' m' ms. Update env w m (editMessageMsg i e None) = Inr (w', m', CmdCreateMessage ms)"
  by (simp add: Update_def updateEditMessage_def index_def Let_def case_prod_beta)

text \<open>
  C2, as it is stated, fails. In a terminal of 24 lines, after "a" and Enter a
  completion request is outstanding and \<open>isLoading\<close> is true; "b" and Enter then issue
  a second request, although no reply has been consumed.
\<close>

theorem second_request_while_loading:
  "(case run plainEnv emptyWorld (initialModel emptyWorld) twoSends of
      Inl p \<Rightarrow> False
    | Inr (w, m, cs) \<Rightarrow>
        ready m \<and> Height (viewport m) = 17 \<and>
        isLoading m \<and> map isRequest cs = [False, False, True, False] \<and>
        (case Update plainEnv w m (key KeyEnter) of
           Inl p \<Rightarrow> False
         | Inr (w', m', c) \<Rightarrow> isRequest c))"
  by code_simp

text \<open>
  C2, amended. \<open>Update\<close> does not look at \<open>isLoading\<close> before it issues a completion
  request. In every state with a terminal of at least 7 lines (where the height of the
  viewport, \<open>height - 7\<close>, is not negative), whatever \<open>isLoading\<close> is, Enter in the
  normal mode with a non-empty input issues a request, and so does the commit of an
  edit, without an error, of a message that exists. What holds is this: a completion
  request is issued only by these two steps, it carries the messages of the new state,
  every step that issues one leaves \<open>isLoading\<close> true, and \<open>isLoading\<close> turns from true
  to false only in the step that consumes a reply.
\<close>

theorem requests_issued_regardless_of_loading:
  "(\<forall>env w m msg w' m' ms.
      Update env w m msg = Inr (w', m', CmdCreateMessage ms) \<longrightarrow>
      isLoading m' \<and> ms = toClaudeMsgs (messages m') \<and>
      ((\<exists>k. msg = KeyMsg k \<and> Type k = KeyEnter \<and> mode m = ModeNormal \<and>
            tiValue (textInput m) \<noteq> []) \<or>
       (\<exists>i e. msg = editMessageMsg i e None))) \<and>
   (\<forall>env w m k.
      7 \<le> height m \<and> Type k = KeyEnter \<and> mode m = ModeNormal \<and>
      tiValue (textInput m) \<noteq> [] \<longrightarrow>
      (\<exists>w' m' ms. Update env w m (KeyMsg k) = Inr (w', m', CmdCreateMessage ms))) \<and>
   (\<forall>env w m i e.
      7 \<le> height m \<and> 0 \<le> i \<and> i < int (length (messages m)) \<longrightarrow>
      (\<exists>w' m' ms. Update env w m (editMessageMsg i e None) = Inr (w', m', CmdCreateMessage ms))) \<and>
   (\<forall>env w m msg w' m' c.
      Update env w m msg = Inr (w', m', c) \<and> isLoading m \<and> \<not> isLoading m' \<longrightarrow>
      (\<exists>r e. msg = apiResponseMsg r e))"
proof -
  have a: "\<forall>env w m msg w' m' ms.
      Update env w m msg = Inr (w', m', CmdCreateMessage ms) \<longrightarrow>
      isLoading m' \<and> ms = toClaudeMsgs (messages m') \<and>
      ((\<exists>k. msg = KeyMsg k \<and> Type k = KeyEnter \<and> mode m = ModeNormal \<and>
            tiValue (textInput m) \<noteq> []) \<or>
       (\<exists>i e. msg = editMessageMsg i e None))"
    by (intro allI impI) (rule Update_request)
  have b: "\<forall>env w m k.
      7 \<le> height m \<and> Type k = KeyEnter \<and> mode m = ModeNormal \<and>
      tiValue (textInput m) \<noteq> [] \<longrightarrow>
      (\<exists>w' m' ms. Update env w m (KeyMsg k) = Inr (w', m', CmdCreateMessage ms))"
    by (simp add: Enter_sends sendMessage_request)
  have c: "\<forall>env w m i e.
      7 \<le> height m \<and> 0 \<le> i \<and> i < int (length (messages m)) \<longrightarrow>
      (\<exists>w' m' ms. Update env w m (editMessageMsg i e None) = Inr (w', m', CmdCreateMessage ms))"
    by (simp add: edit_commit_sends)
  have d: "\<forall>env w m msg w' m' c.
      Update env w m msg = Inr (w', m', c) \<and> isLoading m \<and> \<not> isLoading m' \<longrightarrow>
      (\<exists>r e. msg = apiResponseMsg r e)"
    using Update_isLoading by blast
  show ?thesis by (rule conjI [OF a conjI [OF b conjI [OF c d]]])
qed

theorem requests_issued_regardless_of_loading_witness:
  "isLoading chat2typing \<and>
   (\<exists>w' m' ms. Update plainEnv emptyWorld chat2typing (key KeyEnter) =
        Inr (w', m', CmdCreateMessage ms) \<and>
      isLoading m' \<and> ms = toClaudeMsgs (messages m')) \<and>
   (\<exists>w' m' ms. Update plainEnv emptyWorld chat2typing (editMessageMsg 1 ''hello?'' None) =
        Inr (w', m', CmdCreateMessage ms) \<and>
      isLoading m' \<and> ms = toClaudeMsgs (messages m')) \<and>
   (\<exists>w' m' c. Update plainEnv emptyWorld chat2typing (apiResponseMsg ''ok'' None) =
        Inr (w', m', c) \<and>
      \<not> isLoading m' \<and> (\<exists>r e. apiResponseMsg ''ok'' None = apiResponseMsg r e))"
proof -
  have l: "isLoading chat2typing" by (simp add: chat2typing_def chat2_def)
  have h: "7 \<le> height chat2typing \<and>
      Type \<lparr>Type = KeyEnter, Runes = [], Alt = False\<rparr> = KeyEnter \<and>
      mode chat2typing = ModeNormal \<and> tiValue (textInput chat2typing) \<noteq> []"
    by (simp add: chat2typing_def chat2_def initialModel_def)
  from requests_issued_regardless_of_loading
    [THEN conjunct2, THEN conjunct1, rule_format, OF h]
  obtain w' m' ms where u: "Update plainEnv emptyWorld chat2typing
      (KeyMsg \<lparr>Type = KeyEnter, Runes = [], Alt = False\<rparr>) = Inr (w', m', CmdCreateMessage ms)"
    by blast
  from requests_issued_regardless_of_loading [THEN conjunct1, rule_format, OF u]
  have p: "isLoading m' \<and> ms = toClaudeMsgs (messages m')" by blast
  have x: "\<exists>w' m' ms. Update plainEnv emptyWorld chat2typing (key KeyEnter) =
        Inr (w', m', CmdCreateMessage ms) \<and>
      isLoading m' \<and> ms = toClaudeMsgs (messages m')"
    unfolding key_def
    by (rule exI [of _ w'], rule exI [of _ m'], rule exI [of _ ms]) (rule conjI [OF u p])
  have g: "7 \<le> height chat2typing \<and>
      0 \<le> (1::int) \<and> 1 < int (length (messages chat2typing))"
    by (simp add: chat2typing_def chat2_def)
  from requests_issued_regardless_of_loading
    [THEN conjunct2, THEN conjunct2, THEN conjunct1, rule_format, OF g]
  obtain w2 m2 ms2 where u2: "Update plainEnv emptyWorld chat2typing
      (editMessageMsg 1 ''hello?'' None) = Inr (w2, m2, CmdCreateMessage ms2)"
    by blast
  from requests_issued_regardless_of_loading [THEN conjunct1, rule_format, OF u2]
  have p2: "isLoading m2 \<and> ms2 = toClaudeMsgs (messages m2)" by blast
  have y: "\<exists>w' m' ms. Update plainEnv emptyWorld chat2typing (editMessageMsg 1 ''hello?'' None) =
        Inr (w', m', CmdCreateMessage ms) \<and>
      isLoading m' \<and> ms = toClaudeMsgs (messages m')"
    by (rule exI [of _ w2], rule exI [of _ m2], rule exI [of _ ms2]) (rule conjI [OF u2 p2])
  have "case Update plainEnv emptyWorld chat2typing (apiResponseMsg ''ok'' None) of
      Inl p \<Rightarrow> False
    | Inr (w', m', c) \<Rightarrow> \<not> isLoading m'"
    by code_simp
  then obtain w3 m3 c3 where
    u3: "Update plainEnv emptyWorld chat2typing (apiResponseMsg ''ok'' None) = Inr (w3, m3, c3)"
    and n3: "\<not> isLoading m3"
    by (auto split: sum.splits)
  from requests_issued_regardless_of_loading
    [THEN conjunct2, THEN conjunct2, THEN conjunct2, rule_format, of plainEnv emptyWorld
      chat2typing "apiResponseMsg ''ok'' None" w3 m3 c3] u3 l n3
  have p3: "\<exists>r e. apiResponseMsg ''ok'' None = apiResponseMsg r e" by blast
  have z: "\<exists>w' m' c. Update plainEnv emptyWorld chat2typing (apiResponseMsg ''ok'' None) =
        Inr (w', m', c) \<and>
      \<not> isLoading m' \<and> (\<exists>r e. apiResponseMsg ''ok'' None = apiResponseMsg r e)"
    by (rule exI [of _ w3], rule exI [of _ m3], rule exI [of _ c3]) (intro conjI u3 n3 p3)
  show ?thesis by (rule conjI [OF l conjI [OF x conjI [OF y z]]])
qed

section \<open>Execution needs a selection\<close>

lemma FindAllStringSubmatch_Nil [simp]: "FindAllStringSubmatch [] = []"
  by (simp add: FindAllStringSubmatch.simps openTag_def)

lemma extractCommands_Nil_iff: "extractCommands t = [] \<longleftrightarrow> FindAllStringSubmatch t = []"
  by (simp add: extractCommands_def trimMatches_def)


lemma handleCommandExecution_cases:
  "handleCommandExecution m = Inr (m', c) \<Longrightarrow>
   c = CmdNil \<and>
   (m' = m \<or>
    (\<exists>t. targetMsg m = Inr t \<and> extractCommands t \<noteq> [] \<and>
       m' = m\<lparr>mode := ModeCommandSelect,
              commands := trimMatches (FindAllStringSubmatch t),
              selectedCommand := 0\<rparr>))"
  by (auto simp: handleCommandExecution_def Let_def extractCommands_Nil_iff
      split: sum.splits if_splits)






















section \<open>The cursor of the editing mode\<close>

text \<open>
  The keys of the editing mode keep a cursor that is above the system message above
  it, and a cursor that is on a message on a message.
\<close>

lemma navigation_keeps_cursor:
  "updateEditing env w m k = Inr (w', m', c) \<Longrightarrow>
   (1 \<le> cursorIndex m \<longrightarrow> 1 \<le> cursorIndex m') \<and>
   (cursorIndex m \<le> int (length (messages m)) - 1 \<longrightarrow>
    cursorIndex m' \<le> int (length (messages m')) - 1)"
  by (auto simp: updateEditing_def Let_def inWorld_def
      dest!: handleCommandExecution_cases
      split: if_splits KeyType.splits sum.splits)

text \<open>
  C9, on a fresh conversation. "ctrl+j" sets the cursor to the last message, which is
  the system message when nothing has been sent yet: the editing mode starts with
  the cursor at index 0, although the navigation keeps the cursor above 0 "to skip
  system prompt".
\<close>

theorem fresh_conversation_selects_system_message:
  "\<exists>m'. Update plainEnv emptyWorld (initialModel emptyWorld) (key KeyCtrlJ) =
            Inr (emptyWorld, m', CmdNil) \<and>
         mode m' = ModeEditing \<and> cursorIndex m' = 0 \<and>
         map Role (messages m') = [''system'']"
  by (simp add: Update_def updateKey_def key_def keyString_def enterEditing_def
      initialModel_def newConversation_def systemMsg_def)

end
